theory Spec2Isabelle
  imports Main
begin

section \<open>Declarative AuthConfig objects (package api/v1beta1)\<close>

text \<open>
  The fields of the API structs are read off the generated deep-copy functions and off
  the accesses the controller makes. Go strings are \<open>string\<close>; a Go map with string
  keys is a partial function; a slice is a list.
\<close>

record JSONPatternExpression =
  Selector :: string
  Operator :: string
  Value :: string

text \<open>A pattern rule embeds a reference (\<open>JSONPatternRef\<close>) and an inline expression.\<close>

record JSONPattern =
  JSONPatternName :: string
  JSONPatternExpression :: JSONPatternExpression

text \<open>\<open>common.JSONPatternMatchingRule\<close>, the runtime form of an expression.\<close>

record JSONPatternMatchingRule =
  rule_Selector :: string
  rule_Operator :: string
  rule_Value :: string

type_synonym Patterns = "string \<rightharpoonup> JSONPatternExpression list"

section \<open>buildJSONPatternExpressions (controllers/auth_config_controller.go)\<close>

text \<open>
  The inner loop: every expression of \<open>expressionsToAdd\<close> is appended, converted, to the
  slice \<open>expressions\<close> built so far.
\<close>

fun appendExpressions ::
  "JSONPatternMatchingRule list \<Rightarrow> JSONPatternExpression list \<Rightarrow> JSONPatternMatchingRule list"
where
  "appendExpressions expressions [] = expressions"
| "appendExpressions expressions (expression # rest) =
     appendExpressions
       (expressions @ [\<lparr>rule_Selector = Selector expression,
                        rule_Operator = Operator expression,
                        rule_Value = Value expression\<rparr>]) rest"

text \<open>
  The outer loop over the pattern rules. \<open>patterns\<close> is \<open>authConfig.Spec.Patterns\<close>; the
  lookup is by \<open>pattern.JSONPatternName\<close>, and only its \<open>found\<close> flag decides the branch.
\<close>

fun buildLoop ::
  "Patterns \<Rightarrow> JSONPatternMatchingRule list \<Rightarrow> JSONPattern list \<Rightarrow> JSONPatternMatchingRule list"
where
  "buildLoop patterns expressions [] = expressions"
| "buildLoop patterns expressions (pattern # rest) =
     (let expressionsToAdd =
            (case patterns (JSONPatternName pattern) of
               Some expressionsByRef \<Rightarrow> [] @ expressionsByRef
             | None \<Rightarrow> [] @ [JSONPatternExpression pattern])
      in buildLoop patterns (appendExpressions expressions expressionsToAdd) rest)"

definition buildJSONPatternExpressions ::
  "Patterns \<Rightarrow> JSONPattern list \<Rightarrow> JSONPatternMatchingRule list"
where
  "buildJSONPatternExpressions patterns rules = buildLoop patterns [] rules"

text \<open>
  The reading of the specification: a rule is a named-pattern reference, expanding to all
  the expressions of the pattern, or else stands for its one inline expression; the
  results are concatenated in the order of the rules.
\<close>

definition toRule :: "JSONPatternExpression \<Rightarrow> JSONPatternMatchingRule" where
  "toRule e = \<lparr>rule_Selector = Selector e, rule_Operator = Operator e, rule_Value = Value e\<rparr>"

definition expandRule :: "Patterns \<Rightarrow> JSONPattern \<Rightarrow> JSONPatternMatchingRule list" where
  "expandRule patterns rule =
     (case patterns (JSONPatternName rule) of
        Some named \<Rightarrow> map toRule named
      | None \<Rightarrow> [toRule (JSONPatternExpression rule)])"

definition expandRules :: "Patterns \<Rightarrow> JSONPattern list \<Rightarrow> JSONPatternMatchingRule list" where
  "expandRules patterns rules = concat (map (expandRule patterns) rules)"

section \<open>The OIDC identity evaluator (package pkg/config/identity)\<close>

type_synonym error = string

text \<open>
  A value of the discovery document once decoded into \<open>map[string]interface{}\<close>: the
  code only asks whether it is a Go string.
\<close>

datatype json = JString string | JNumber int | JBool bool | JNull | JArray "json list"

text \<open>
  \<open>goidc.Provider\<close> (an imported library): the evaluator reads its raw discovery
  document through \<open>Claims\<close>, which errs and leaves the target map nil when no document
  was stored, and verifies tokens through \<open>Verifier(...).Verify\<close>. The document is kept as
  the decoded map; a nil Go map reads like the empty one.
\<close>

record Provider =
  issuer :: string
  rawClaims :: "(string \<rightharpoonup> json) option"

definition Provider_Claims :: "Provider \<Rightarrow> (string \<rightharpoonup> json) \<times> error option" where
  "Provider_Claims p =
     (case rawClaims p of
        None \<Rightarrow> (Map.empty, Some ''oidc: claims not set'')
      | Some doc \<Rightarrow> (doc, None))"

text \<open>
  \<open>cron.Worker\<close> is an interface of a package that is not part of the sources at hand; a
  worker is known by its identity, and the set of workers whose periodic task is running
  is part of the state.
\<close>

record Worker =
  worker_id :: nat

record Cron =
  running :: "nat list"

text \<open>
  Modelled from the spec: \<open>cron.Worker.Stop\<close> is missing from the sources; the background
  worker is a periodic task owned by the evaluator whose stop-channel is invoked by
  \<open>Clean\<close>. Stopping ends the periodic task of that worker and reports no error.
\<close>

definition Worker_Stop :: "Worker \<Rightarrow> Cron \<Rightarrow> error option \<times> Cron" where
  "Worker_Stop w c = (None, c\<lparr>running := removeAll (worker_id w) (running c)\<rparr>)"

text \<open>
  What \<open>cron.StartWorker\<close> hands back: a worker interface value (possibly nil) and an
  error (possibly nil); a worker handed back has its periodic task running.
\<close>

type_synonym StartWorkerResult = "Worker option \<times> error option"

definition StartWorker :: "StartWorkerResult \<Rightarrow> Cron \<Rightarrow> StartWorkerResult \<times> Cron" where
  "StartWorker res c =
     (case fst res of
        None \<Rightarrow> (res, c)
      | Some w \<Rightarrow> (res, c\<lparr>running := worker_id w # running c\<rparr>))"

record AuthCredential =
  cred_KeySelector :: string
  cred_In :: string

record OIDC =
  oidc_AuthCredentials :: AuthCredential
  oidc_Endpoint :: string
  provider :: "Provider option"
  refresher :: "Worker option"

text \<open>How a call of the evaluator ends: Go code returns normally or panics.\<close>

datatype fault = NilPointerDereference | InterfaceConversion

datatype 'a outcome = Panics fault | Returns 'a

definition msg_oidcProviderConfigMissingError :: string where
  "msg_oidcProviderConfigMissingError = ''missing openid connect configuration''"

text \<open>
  \<open>getProvider\<close>. The outcome of \<open>goidc.NewProvider\<close> on the endpoint (a network
  discovery) is the argument \<open>discovery\<close>; it is consulted only when the stored provider is
  nil or the call is forced. The result is the provider returned and the evaluator after
  the call.
\<close>

definition getProvider :: "OIDC \<Rightarrow> bool \<Rightarrow> error + Provider \<Rightarrow> Provider option \<times> OIDC" where
  "getProvider oidc force discovery =
     (let oidc' =
        (if provider oidc = None \<or> force then
           (case discovery of
              Inl err \<Rightarrow> oidc
            | Inr p \<Rightarrow> oidc\<lparr>provider := Some p\<rparr>)
         else oidc)
      in (provider oidc', oidc'))"

text \<open>
  \<open>verifyToken\<close>; \<open>verify\<close> stands for \<open>provider.Verifier(config).Verify(ctx, token)\<close> of the
  library.
\<close>

definition verifyToken ::
  "(Provider \<Rightarrow> string \<Rightarrow> error + 'tok) \<Rightarrow> OIDC \<Rightarrow> string \<Rightarrow> error + Provider
     \<Rightarrow> (error + 'tok) \<times> OIDC"
where
  "verifyToken verify oidc accessToken discovery =
     (case getProvider oidc False discovery of
        (None, oidc') \<Rightarrow> (Inl msg_oidcProviderConfigMissingError, oidc')
      | (Some p, oidc') \<Rightarrow>
          (case verify p accessToken of
             Inl err \<Rightarrow> (Inl err, oidc')
           | Inr idToken \<Rightarrow> (Inr idToken, oidc')))"

text \<open>
  \<open>decodeAndVerifyToken\<close>: \<open>checkContext\<close> is the result of \<open>common.CheckContext\<close> and
  \<open>tokenClaims\<close> stands for \<open>idToken.Claims\<close>.
\<close>

definition decodeAndVerifyToken ::
  "error option \<Rightarrow> (Provider \<Rightarrow> string \<Rightarrow> error + 'tok) \<Rightarrow> ('tok \<Rightarrow> error + 'claims)
     \<Rightarrow> OIDC \<Rightarrow> string \<Rightarrow> error + Provider \<Rightarrow> (error + 'tok \<times> 'claims) \<times> OIDC"
where
  "decodeAndVerifyToken checkContext verify tokenClaims oidc accessToken discovery =
     (case checkContext of
        Some err \<Rightarrow> (Inl err, oidc)
      | None \<Rightarrow>
          (case verifyToken verify oidc accessToken discovery of
             (Inl err, oidc') \<Rightarrow> (Inl err, oidc')
           | (Inr idToken, oidc') \<Rightarrow>
               (case tokenClaims idToken of
                  Inl err \<Rightarrow> (Inl err, oidc')
                | Inr claims \<Rightarrow> (Inr (idToken, claims), oidc'))))"

text \<open>
  \<open>Call\<close>; \<open>credentials\<close> is the result of \<open>GetCredentialsFromReq\<close> on the request of the
  pipeline (the getters of the generated request type accept nil receivers).
\<close>

definition OIDC_Call ::
  "error + string \<Rightarrow> error option \<Rightarrow> (Provider \<Rightarrow> string \<Rightarrow> error + 'tok)
     \<Rightarrow> ('tok \<Rightarrow> error + 'claims) \<Rightarrow> OIDC \<Rightarrow> error + Provider
     \<Rightarrow> (error + 'claims) outcome \<times> OIDC"
where
  "OIDC_Call credentials checkContext verify tokenClaims oidc discovery =
     (case credentials of
        Inl err \<Rightarrow> (Returns (Inl err), oidc)
      | Inr accessToken \<Rightarrow>
          (case decodeAndVerifyToken checkContext verify tokenClaims oidc accessToken discovery of
             (Inl err, oidc') \<Rightarrow> (Returns (Inl err), oidc')
           | (Inr (idToken, claims), oidc') \<Rightarrow> (Returns (Inr claims), oidc')))"

text \<open>
  \<open>GetURL\<close>. The method \<open>Claims\<close> is called on whatever \<open>getProvider\<close> returned, which
  dereferences it; its error is dropped. \<open>providerClaims[name].(string)\<close> is a type assertion
  without the comma-ok form: it panics unless the entry is present and a string.
  \<open>parse\<close> stands for \<open>url.Parse\<close>.
\<close>

definition GetURL ::
  "(string \<Rightarrow> error + 'url) \<Rightarrow> OIDC \<Rightarrow> string \<Rightarrow> error + Provider
     \<Rightarrow> (error + 'url) outcome \<times> OIDC"
where
  "GetURL parse oidc name discovery =
     (case getProvider oidc False discovery of
        (None, oidc') \<Rightarrow> (Panics NilPointerDereference, oidc')
      | (Some p, oidc') \<Rightarrow>
          (let providerClaims = fst (Provider_Claims p) in
           case providerClaims name of
             Some (JString s) \<Rightarrow>
               (case parse s of
                  Inl err \<Rightarrow> (Returns (Inl err), oidc')
                | Inr endpoint \<Rightarrow> (Returns (Inr endpoint), oidc'))
           | _ \<Rightarrow> (Panics InterfaceConversion, oidc')))"

text \<open>
  \<open>configureProviderRefresh\<close>: the worker interface value handed back is stored whatever
  the error; the error is only logged.
\<close>

definition configureProviderRefresh :: "OIDC \<Rightarrow> StartWorkerResult \<Rightarrow> Cron \<Rightarrow> OIDC \<times> Cron" where
  "configureProviderRefresh oidc started c =
     (case StartWorker started c of
        ((worker, err), c') \<Rightarrow> (oidc\<lparr>refresher := worker\<rparr>, c'))"

definition NewOIDC ::
  "string \<Rightarrow> AuthCredential \<Rightarrow> error + Provider \<Rightarrow> StartWorkerResult \<Rightarrow> Cron \<Rightarrow> OIDC \<times> Cron"
where
  "NewOIDC endpoint creds discovery started c =
     (let oidc = \<lparr>oidc_AuthCredentials = creds, oidc_Endpoint = endpoint,
                  provider = None, refresher = None\<rparr>;
          oidc1 = snd (getProvider oidc False discovery)
      in configureProviderRefresh oidc1 started c)"

text \<open>\<open>Clean\<close>: nothing to do without a refresher, else the result of stopping it.\<close>

definition OIDC_Clean :: "OIDC \<Rightarrow> Cron \<Rightarrow> error option \<times> Cron" where
  "OIDC_Clean oidc c =
     (case refresher oidc of
        None \<Rightarrow> (None, c)
      | Some w \<Rightarrow> Worker_Stop w c)"

text \<open>
  The task of the refresher, run at every tick: \<open>getProvider(ctx, true)\<close>. A run of ticks
  consumes one discovery outcome each.
\<close>

fun refreshTicks :: "OIDC \<Rightarrow> (error + Provider) list \<Rightarrow> OIDC" where
  "refreshTicks oidc [] = oidc"
| "refreshTicks oidc (discovery # rest) =
     refreshTicks (snd (getProvider oidc True discovery)) rest"

text \<open>
  The reading of "the last good configuration": the provider of the latest successful
  discovery of a run, or the one held before the run when none succeeded.
\<close>

fun lastGood :: "Provider \<Rightarrow> (error + Provider) list \<Rightarrow> Provider" where
  "lastGood p [] = p"
| "lastGood p (Inl err # rest) = lastGood p rest"
| "lastGood p (Inr p' # rest) = lastGood p' rest"

section \<open>The API key identity evaluator (package pkg/config/identity)\<close>

text \<open>\<open>v1.Secret\<close>, as far as the code reads it; \<open>[]byte\<close> data as strings.\<close>

record Secret =
  secret_Namespace :: string
  secret_Name :: string
  secret_Data :: "string \<rightharpoonup> string"

text \<open>The list options of the cluster client that the evaluator builds.\<close>

datatype ListOption = MatchingLabels "string \<rightharpoonup> string" | InNamespace string

text \<open>
  \<open>client.Reader.List\<close> is an interface method: any function from the options to an error
  or the secrets listed.
\<close>

type_synonym Reader_List = "ListOption list \<Rightarrow> error + Secret list"

definition apiKeySelector :: string where
  "apiKeySelector = ''api_key''"

definition invalidApiKeyMsg :: string where
  "invalidApiKeyMsg = ''the API Key provided is invalid''"

text \<open>
  \<open>authorizedCredentials\<close> is a Go map from key to secret; the nil map of a fresh
  evaluator reads and ranges like the empty one.
\<close>

record APIKey =
  apikey_AuthCredentials :: AuthCredential
  apikey_Name :: string
  apikey_LabelSelectors :: "string \<rightharpoonup> string"
  apikey_Namespace :: string
  authorizedCredentials :: "string \<rightharpoonup> Secret"

text \<open>\<open>string(secret.Data[key])\<close>: a missing entry is the nil byte slice, the empty string.\<close>

definition dataString :: "Secret \<Rightarrow> string \<Rightarrow> string" where
  "dataString secret key = (case secret_Data secret key of None \<Rightarrow> [] | Some v \<Rightarrow> v)"

definition listOptions :: "APIKey \<Rightarrow> ListOption list" where
  "listOptions apiKey =
     [MatchingLabels (apikey_LabelSelectors apiKey)] @
     (if apikey_Namespace apiKey \<noteq> [] then [InNamespace (apikey_Namespace apiKey)] else [])"

fun parseSecrets :: "(string \<rightharpoonup> Secret) \<Rightarrow> Secret list \<Rightarrow> (string \<rightharpoonup> Secret)" where
  "parseSecrets parsedSecrets [] = parsedSecrets"
| "parseSecrets parsedSecrets (secret # rest) =
     parseSecrets (parsedSecrets(dataString secret apiKeySelector \<mapsto> secret)) rest"

definition GetCredentialsFromCluster :: "Reader_List \<Rightarrow> APIKey \<Rightarrow> error option \<times> APIKey" where
  "GetCredentialsFromCluster k8sList apiKey =
     (case k8sList (listOptions apiKey) of
        Inl err \<Rightarrow> (Some err, apiKey)
      | Inr items \<Rightarrow>
          (None, apiKey\<lparr>authorizedCredentials := parseSecrets Map.empty items\<rparr>))"

text \<open>The constructor only logs a failed fetch.\<close>

definition NewApiKeyIdentity ::
  "string \<Rightarrow> (string \<rightharpoonup> string) \<Rightarrow> string \<Rightarrow> AuthCredential \<Rightarrow> Reader_List \<Rightarrow> APIKey"
where
  "NewApiKeyIdentity name labelSelectors namespace authCred k8sList =
     snd (GetCredentialsFromCluster k8sList
       \<lparr>apikey_AuthCredentials = authCred, apikey_Name = name,
        apikey_LabelSelectors = labelSelectors, apikey_Namespace = namespace,
        authorizedCredentials = Map.empty\<rparr>)"

text \<open>
  \<open>Call\<close>; \<open>getCredentialsFromReq\<close> is the method of the embedded credentials interface.
  The loop over the map returns the entry whose key equals the key of the request; the
  keys of a map are distinct, so this is the lookup of that key.
\<close>

definition APIKey_Call :: "('req \<Rightarrow> error + string) \<Rightarrow> APIKey \<Rightarrow> 'req \<Rightarrow> error + Secret" where
  "APIKey_Call getCredentialsFromReq apiKey request =
     (case getCredentialsFromReq request of
        Inl err \<Rightarrow> Inl err
      | Inr reqKey \<Rightarrow>
          (case authorizedCredentials apiKey reqKey of
             Some secret \<Rightarrow> Inr secret
           | None \<Rightarrow> Inl invalidApiKeyMsg))"

section \<open>Declarative evaluators as the controller reads them (package api/v1beta1)\<close>

text \<open>
  The type declarations of the API package are not part of the sources at hand; the
  records below carry the fields that \<open>translateAuthConfig\<close> reads. Each evaluator entry
  sets one of its kind-specific fields and \<open>GetType\<close> names the one that is set: an entry
  is modelled as its common fields with a value telling the type and the fields of that
  type, \<open>TypeUnknown\<close> when none is set.
\<close>

record Credentials =
  KeySelector :: string
  In :: string

record JsonProperty =
  jp_Name :: string
  jp_Value :: string
  jp_AuthJSON :: string

record StaticOrDynamicValue =
  sd_Value :: string
  sd_AuthJSON :: string

record SecretKeyReference =
  skr_Name :: string
  skr_Key :: string

datatype IdentityType =
    IdentityOAuth2 string string string
  | IdentityOidc string int
  | IdentityApiKey "string \<rightharpoonup> string" bool
  | IdentityKubernetesAuth "string list"
  | IdentityAnonymous
  | IdentityTypeUnknown

text \<open>
  The arguments are, in turn: \<open>TokenIntrospectionUrl\<close>, \<open>TokenTypeHint\<close> and
  \<open>Credentials.Name\<close> of \<open>OAuth2\<close>; \<open>Endpoint\<close> and \<open>TTL\<close> of \<open>Oidc\<close>; \<open>LabelSelectors\<close> and
  \<open>AllNamespaces\<close> of \<open>APIKey\<close>; \<open>Audiences\<close> of \<open>KubernetesAuth\<close>.
\<close>

record Identity =
  id_Name :: string
  id_Priority :: int
  id_Conditions :: "JSONPattern list"
  id_Metrics :: bool
  id_Credentials :: Credentials
  id_ExtendedProperties :: "JsonProperty list"
  id_Type :: IdentityType

record Metadata_GenericHTTP =
  gh_Endpoint :: string
  gh_Method :: string
  gh_Parameters :: "JsonProperty list"
  gh_Headers :: "JsonProperty list"
  gh_ContentType :: string
  gh_SharedSecret :: "SecretKeyReference option"
  gh_Credentials :: Credentials

datatype MetadataType =
    MetadataUma string string
  | MetadataUserinfo string
  | MetadataGenericHTTP Metadata_GenericHTTP
  | MetadataTypeUnknown

text \<open>
  \<open>MetadataUma\<close> carries \<open>Endpoint\<close> and \<open>Credentials.Name\<close>; \<open>MetadataUserinfo\<close> carries
  \<open>IdentitySource\<close>.
\<close>

record Metadata =
  md_Name :: string
  md_Priority :: int
  md_Conditions :: "JSONPattern list"
  md_Metrics :: bool
  md_Type :: MetadataType

record ExternalRegistry =
  er_Endpoint :: string
  er_SharedSecret :: "SecretKeyReference option"
  er_Credentials :: Credentials
  er_TTL :: int

record Authorization_OPA =
  opa_InlineRego :: string
  opa_ExternalRegistry :: ExternalRegistry
  opa_AllValues :: bool

record 'v ResourceAttributes =
  ra_Namespace :: 'v
  ra_Group :: 'v
  ra_Resource :: 'v
  ra_Name :: 'v
  ra_SubResource :: 'v
  ra_Verb :: 'v

record Authorization_KubernetesAuthz =
  ka_User :: StaticOrDynamicValue
  ka_Groups :: "string list"
  ka_ResourceAttributes :: "StaticOrDynamicValue ResourceAttributes option"

datatype AuthorizationType =
    AuthorizationOPA Authorization_OPA
  | AuthorizationJSONPatternMatching "JSONPattern list"
  | AuthorizationKubernetesAuthz Authorization_KubernetesAuthz
  | AuthorizationTypeUnknown

record Authorization =
  az_Name :: string
  az_Priority :: int
  az_Conditions :: "JSONPattern list"
  az_Metrics :: bool
  az_Type :: AuthorizationType

record SigningKeyRef =
  sk_Name :: string
  sk_Algorithm :: string

record Response_Wristband =
  wb_Issuer :: string
  wb_CustomClaims :: "JsonProperty list"
  wb_TokenDuration :: "int option"
  wb_SigningKeyRefs :: "SigningKeyRef list"

datatype ResponseType =
    ResponseWristband Response_Wristband
  | ResponseDynamicJSON "JsonProperty list"
  | ResponseTypeUnknown

record Response =
  rs_Name :: string
  rs_Priority :: int
  rs_Conditions :: "JSONPattern list"
  rs_Metrics :: bool
  rs_Wrapper :: string
  rs_WrapperKey :: string
  rs_Type :: ResponseType

record DenyWithSpec =
  dw_Code :: int
  dw_Message :: string
  dw_Headers :: "JsonProperty list"

record DenyWith =
  Unauthenticated :: "DenyWithSpec option"
  Unauthorized :: "DenyWithSpec option"

record AuthConfig =
  ac_Namespace :: string
  ac_Name :: string
  spec_Hosts :: "string list"
  spec_Patterns :: Patterns
  spec_Conditions :: "JSONPattern list"
  spec_Identity :: "Identity list"
  spec_Metadata :: "Metadata list"
  spec_Authorization :: "Authorization list"
  spec_Response :: "Response list"
  spec_DenyWith :: "DenyWith option"

section \<open>Runtime evaluators (packages pkg/common and pkg/config)\<close>

text \<open>
  The runtime structs are filled by the controller field by field; the evaluators that
  constructors of other packages build are kept as the arguments they were built from.
\<close>

record JSONValue =
  Static :: string
  Pattern :: string

record JSONProperty =
  prop_Name :: string
  prop_Value :: JSONValue

datatype IdentityEvaluator =
    EvOAuth2 string string string string AuthCredential
  | EvOIDC OIDC
  | EvAPIKey APIKey
  | EvKubernetesAuth AuthCredential "string list"
  | EvNoop AuthCredential

record IdentityConfig =
  ic_Name :: string
  ic_Priority :: int
  ic_Conditions :: "JSONPatternMatchingRule list"
  ic_ExtendedProperties :: "JSONProperty list"
  ic_Metrics :: bool
  ic_Evaluator :: "IdentityEvaluator option"

record GenericHttp =
  http_Endpoint :: string
  http_Method :: string
  http_Parameters :: "JSONProperty list"
  http_Headers :: "JSONProperty list"
  http_ContentType :: string
  http_SharedSecret :: string
  http_AuthCredentials :: AuthCredential

datatype MetadataEvaluator =
    EvUMA string string string
  | EvUserInfo "OIDC option"
  | EvGenericHttp GenericHttp

record MetadataConfig =
  mc_Name :: string
  mc_Priority :: int
  mc_Conditions :: "JSONPatternMatchingRule list"
  mc_Metrics :: bool
  mc_Evaluator :: "MetadataEvaluator option"

record OPAExternalSource =
  src_Endpoint :: string
  src_SharedSecret :: string
  src_AuthCredentials :: AuthCredential
  src_TTL :: int

datatype AuthorizationEvaluator =
    EvOPA string string OPAExternalSource bool nat
  | EvJSONPatternMatching "JSONPatternMatchingRule list"
  | EvKubernetesAuthz JSONValue "string list" "JSONValue ResourceAttributes option"

record AuthorizationConfig =
  zc_Name :: string
  zc_Priority :: int
  zc_Conditions :: "JSONPatternMatchingRule list"
  zc_Metrics :: bool
  zc_Evaluator :: "AuthorizationEvaluator option"

record SigningKey =
  key_Name :: string
  key_Algorithm :: string
  key_Pem :: string

datatype ResponseEvaluator =
    EvWristband string "JSONProperty list" "int option" "SigningKey list"
  | EvDynamicJSON "JSONProperty list"

record ResponseConfig =
  rc_Name :: string
  rc_Priority :: int
  rc_Conditions :: "JSONPatternMatchingRule list"
  rc_Wrapper :: string
  rc_WrapperKey :: string
  rc_Metrics :: bool
  rc_Evaluator :: "ResponseEvaluator option"

record DenyWithValues =
  dv_Code :: int
  dv_Message :: string
  dv_Headers :: "JSONProperty list"

record APIConfig =
  Conditions :: "JSONPatternMatchingRule list"
  IdentityConfigs :: "IdentityConfig list"
  MetadataConfigs :: "MetadataConfig list"
  AuthorizationConfigs :: "AuthorizationConfig list"
  ResponseConfigs :: "ResponseConfig list"
  Labels :: "string \<rightharpoonup> string"
  cfg_Unauthenticated :: "DenyWithValues option"
  cfg_Unauthorized :: "DenyWithValues option"

section \<open>The reconciler (controllers/auth_config_controller.go)\<close>

text \<open>
  The reconciler with its collaborators. \<open>r_Namespace\<close> is the field \<open>Namespace\<close>;
  \<open>client_Get\<close> (by namespace and name) and \<open>client_List\<close> are the methods of the embedded
  cluster client; \<open>Watched\<close> is the label check of the controller package. The remaining
  fields stand for code of other packages: the discovery of an OIDC endpoint, the start of
  a worker for a TTL, the error (if any) with which a constructor refuses its arguments,
  and the error (if any) that cleaning a configuration reports.
\<close>

record Reconciler =
  r_Namespace :: string
  client_Get :: "string \<Rightarrow> string \<Rightarrow> error + Secret"
  client_List :: Reader_List
  Watched :: "AuthConfig \<Rightarrow> bool"
  discover :: "string \<Rightarrow> error + Provider"
  startWorker :: "int \<Rightarrow> StartWorkerResult"
  NewKubernetesAuthIdentity_error :: "AuthCredential \<Rightarrow> string list \<Rightarrow> error option"
  NewUMAMetadata_error :: "string \<Rightarrow> string \<Rightarrow> string \<Rightarrow> error option"
  NewOPAAuthorization_error ::
    "string \<Rightarrow> string \<Rightarrow> OPAExternalSource \<Rightarrow> bool \<Rightarrow> nat \<Rightarrow> error option"
  NewKubernetesAuthz_error ::
    "JSONValue \<Rightarrow> string list \<Rightarrow> JSONValue ResourceAttributes option \<Rightarrow> error option"
  NewSigningKey_error :: "string \<Rightarrow> string \<Rightarrow> string \<Rightarrow> error option"
  NewWristbandConfig_error ::
    "string \<Rightarrow> JSONProperty list \<Rightarrow> int option \<Rightarrow> SigningKey list \<Rightarrow> error option"
  Clean_error :: "APIConfig \<Rightarrow> error option"

definition ClusterWide :: "Reconciler \<Rightarrow> bool" where
  "ClusterWide r = (r_Namespace r = [])"

definition NewAuthCredential :: "string \<Rightarrow> string \<Rightarrow> AuthCredential" where
  "NewAuthCredential selector location = \<lparr>cred_KeySelector = selector, cred_In = location\<rparr>"

definition toJSONProperty :: "JsonProperty \<Rightarrow> JSONProperty" where
  "toJSONProperty property =
     \<lparr>prop_Name = jp_Name property,
      prop_Value = \<lparr>Static = jp_Value property, Pattern = jp_AuthJSON property\<rparr>\<rparr>"

definition toJSONValue :: "StaticOrDynamicValue \<Rightarrow> JSONValue" where
  "toJSONValue v = \<lparr>Static = sd_Value v, Pattern = sd_AuthJSON v\<rparr>"

text \<open>
  A loop that translates the entries of a list in order, returns the first error at once
  and otherwise appends each result.
\<close>

fun translateEach :: "('a \<Rightarrow> error + 'b) \<Rightarrow> 'a list \<Rightarrow> error + 'b list" where
  "translateEach f [] = Inr []"
| "translateEach f (x # xs) =
     (case f x of
        Inl err \<Rightarrow> Inl err
      | Inr y \<Rightarrow>
          (case translateEach f xs of
             Inl err \<Rightarrow> Inl err
           | Inr ys \<Rightarrow> Inr (y # ys)))"

text \<open>The namespace handed to the API key evaluator (the lines before its construction).\<close>

definition apiKeyNamespace :: "Reconciler \<Rightarrow> AuthConfig \<Rightarrow> bool \<Rightarrow> string" where
  "apiKeyNamespace r authConfig allNamespaces =
     (if allNamespaces \<and> ClusterWide r then [] else ac_Namespace authConfig)"

text \<open>
  The body of the loop over the identities. The errors made with \<open>fmt.Errorf\<close> end in the
  printed entry, left out here.
\<close>

definition translateIdentity :: "Reconciler \<Rightarrow> AuthConfig \<Rightarrow> Identity \<Rightarrow> error + IdentityConfig" where
  "translateIdentity r authConfig identity =
     (let extendedProperties = map toJSONProperty (id_ExtendedProperties identity);
          translatedIdentity =
            \<lparr>ic_Name = id_Name identity,
             ic_Priority = id_Priority identity,
             ic_Conditions =
               buildJSONPatternExpressions (spec_Patterns authConfig) (id_Conditions identity),
             ic_ExtendedProperties = extendedProperties,
             ic_Metrics = id_Metrics identity,
             ic_Evaluator = None\<rparr>;
          authCred = NewAuthCredential (KeySelector (id_Credentials identity))
                       (In (id_Credentials identity))
      in case id_Type identity of
           IdentityOAuth2 tokenIntrospectionUrl tokenTypeHint credentialsName \<Rightarrow>
             (case client_Get r (ac_Namespace authConfig) credentialsName of
                Inl err \<Rightarrow> Inl err
              | Inr secret \<Rightarrow>
                  Inr (translatedIdentity\<lparr>ic_Evaluator :=
                    Some (EvOAuth2 tokenIntrospectionUrl tokenTypeHint
                           (dataString secret ''clientID'') (dataString secret ''clientSecret'')
                           authCred)\<rparr>))
         | IdentityOidc endpoint ttl \<Rightarrow>
             Inr (translatedIdentity\<lparr>ic_Evaluator :=
               Some (EvOIDC (fst (NewOIDC endpoint authCred (discover r endpoint)
                                    (startWorker r ttl) \<lparr>running = []\<rparr>)))\<rparr>)
         | IdentityApiKey labelSelectors allNamespaces \<Rightarrow>
             (let namespace = apiKeyNamespace r authConfig allNamespaces
              in Inr (translatedIdentity\<lparr>ic_Evaluator :=
                   Some (EvAPIKey (NewApiKeyIdentity (id_Name identity) labelSelectors namespace
                                     authCred (client_List r)))\<rparr>))
         | IdentityKubernetesAuth audiences \<Rightarrow>
             (case NewKubernetesAuthIdentity_error r authCred audiences of
                Some err \<Rightarrow> Inl err
              | None \<Rightarrow>
                  Inr (translatedIdentity\<lparr>ic_Evaluator :=
                    Some (EvKubernetesAuth authCred audiences)\<rparr>))
         | IdentityAnonymous \<Rightarrow>
             Inr (translatedIdentity\<lparr>ic_Evaluator := Some (EvNoop authCred)\<rparr>)
         | IdentityTypeUnknown \<Rightarrow> Inl ''unknown identity type'')"

fun findIdentityConfigByName :: "IdentityConfig list \<Rightarrow> string \<Rightarrow> error + IdentityConfig" where
  "findIdentityConfigByName [] name = Inl (''missing identity config '' @ name)"
| "findIdentityConfigByName (idConfig # rest) name =
     (if ic_Name idConfig = name then Inr idConfig else findIdentityConfigByName rest name)"

text \<open>The field \<open>OIDC\<close> of an identity configuration: nil unless the evaluator is one.\<close>

definition ic_OIDC :: "IdentityConfig \<Rightarrow> OIDC option" where
  "ic_OIDC idConfig = (case ic_Evaluator idConfig of Some (EvOIDC oidc) \<Rightarrow> Some oidc | _ \<Rightarrow> None)"

definition translateMetadata ::
  "Reconciler \<Rightarrow> AuthConfig \<Rightarrow> IdentityConfig list \<Rightarrow> Metadata \<Rightarrow> error + MetadataConfig"
where
  "translateMetadata r authConfig identityConfigs metadata =
     (let translatedMetadata =
            \<lparr>mc_Name = md_Name metadata,
             mc_Priority = md_Priority metadata,
             mc_Conditions =
               buildJSONPatternExpressions (spec_Patterns authConfig) (md_Conditions metadata),
             mc_Metrics = md_Metrics metadata,
             mc_Evaluator = None\<rparr>
      in case md_Type metadata of
           MetadataUma endpoint credentialsName \<Rightarrow>
             (case client_Get r (ac_Namespace authConfig) credentialsName of
                Inl err \<Rightarrow> Inl err
              | Inr secret \<Rightarrow>
                  (case NewUMAMetadata_error r endpoint (dataString secret ''clientID'')
                          (dataString secret ''clientSecret'') of
                     Some err \<Rightarrow> Inl err
                   | None \<Rightarrow>
                       Inr (translatedMetadata\<lparr>mc_Evaluator :=
                         Some (EvUMA endpoint (dataString secret ''clientID'')
                                (dataString secret ''clientSecret''))\<rparr>)))
         | MetadataUserinfo identitySource \<Rightarrow>
             (case findIdentityConfigByName identityConfigs identitySource of
                Inl err \<Rightarrow> Inl err
              | Inr idConfig \<Rightarrow>
                  Inr (translatedMetadata\<lparr>mc_Evaluator := Some (EvUserInfo (ic_OIDC idConfig))\<rparr>))
         | MetadataGenericHTTP genericHttp \<Rightarrow>
             (let creds = gh_Credentials genericHttp;
                  build = (\<lambda>sharedSecret.
                    translatedMetadata\<lparr>mc_Evaluator := Some (EvGenericHttp
                      \<lparr>http_Endpoint = gh_Endpoint genericHttp,
                       http_Method = gh_Method genericHttp,
                       http_Parameters = map toJSONProperty (gh_Parameters genericHttp),
                       http_Headers = map toJSONProperty (gh_Headers genericHttp),
                       http_ContentType = gh_ContentType genericHttp,
                       http_SharedSecret = sharedSecret,
                       http_AuthCredentials =
                         NewAuthCredential (KeySelector creds) (In creds)\<rparr>)\<rparr>)
              in case gh_SharedSecret genericHttp of
                   None \<Rightarrow> Inr (build [])
                 | Some sharedSecretRef \<Rightarrow>
                     (case client_Get r (ac_Namespace authConfig) (skr_Name sharedSecretRef) of
                        Inl err \<Rightarrow> Inl err
                      | Inr secret \<Rightarrow> Inr (build (dataString secret (skr_Key sharedSecretRef)))))
         | MetadataTypeUnknown \<Rightarrow> Inl ''unknown metadata type'')"

definition translateAuthorization ::
  "Reconciler \<Rightarrow> AuthConfig \<Rightarrow> nat \<Rightarrow> Authorization \<Rightarrow> error + AuthorizationConfig"
where
  "translateAuthorization r authConfig index authorization =
     (let translatedAuthorization =
            \<lparr>zc_Name = az_Name authorization,
             zc_Priority = az_Priority authorization,
             zc_Conditions =
               buildJSONPatternExpressions (spec_Patterns authConfig) (az_Conditions authorization),
             zc_Metrics = az_Metrics authorization,
             zc_Evaluator = None\<rparr>
      in case az_Type authorization of
           AuthorizationOPA opa \<Rightarrow>
             (let policyName = ac_Namespace authConfig @ ''/'' @ ac_Name authConfig @ ''/''
                                 @ az_Name authorization;
                  externalRegistry = opa_ExternalRegistry opa;
                  finish = (\<lambda>sharedSecret.
                    let externalSource =
                          \<lparr>src_Endpoint = er_Endpoint externalRegistry,
                           src_SharedSecret = sharedSecret,
                           src_AuthCredentials =
                             NewAuthCredential (KeySelector (er_Credentials externalRegistry))
                               (In (er_Credentials externalRegistry)),
                           src_TTL = er_TTL externalRegistry\<rparr>
                    in case NewOPAAuthorization_error r policyName (opa_InlineRego opa)
                              externalSource (opa_AllValues opa) index of
                         Some err \<Rightarrow> Inl err
                       | None \<Rightarrow>
                           Inr (translatedAuthorization\<lparr>zc_Evaluator :=
                             Some (EvOPA policyName (opa_InlineRego opa) externalSource
                                    (opa_AllValues opa) index)\<rparr>))
              in case er_SharedSecret externalRegistry of
                   None \<Rightarrow> finish []
                 | Some sharedSecretRef \<Rightarrow>
                     (case client_Get r (ac_Namespace authConfig) (skr_Name sharedSecretRef) of
                        Inl err \<Rightarrow> Inl err
                      | Inr secret \<Rightarrow> finish (dataString secret (skr_Key sharedSecretRef))))
         | AuthorizationJSONPatternMatching rules \<Rightarrow>
             Inr (translatedAuthorization\<lparr>zc_Evaluator :=
               Some (EvJSONPatternMatching
                      (buildJSONPatternExpressions (spec_Patterns authConfig) rules))\<rparr>)
         | AuthorizationKubernetesAuthz kubernetesAuthz \<Rightarrow>
             (let authorinoUser = toJSONValue (ka_User kubernetesAuthz);
                  authorinoResourceAttributes =
                    (case ka_ResourceAttributes kubernetesAuthz of
                       None \<Rightarrow> None
                     | Some resourceAttributes \<Rightarrow>
                         Some \<lparr>ra_Namespace = toJSONValue (ra_Namespace resourceAttributes),
                               ra_Group = toJSONValue (ra_Group resourceAttributes),
                               ra_Resource = toJSONValue (ra_Resource resourceAttributes),
                               ra_Name = toJSONValue (ra_Name resourceAttributes),
                               ra_SubResource = toJSONValue (ra_SubResource resourceAttributes),
                               ra_Verb = toJSONValue (ra_Verb resourceAttributes)\<rparr>)
              in case NewKubernetesAuthz_error r authorinoUser (ka_Groups kubernetesAuthz)
                        authorinoResourceAttributes of
                   Some err \<Rightarrow> Inl err
                 | None \<Rightarrow>
                     Inr (translatedAuthorization\<lparr>zc_Evaluator :=
                       Some (EvKubernetesAuthz authorinoUser (ka_Groups kubernetesAuthz)
                              authorinoResourceAttributes)\<rparr>))
         | AuthorizationTypeUnknown \<Rightarrow> Inl ''unknown authorization type'')"

text \<open>The loop over the signing key references of a wristband.\<close>

definition signingKeyOf :: "Reconciler \<Rightarrow> AuthConfig \<Rightarrow> SigningKeyRef \<Rightarrow> error + SigningKey" where
  "signingKeyOf r authConfig signingKeyRef =
     (case client_Get r (ac_Namespace authConfig) (sk_Name signingKeyRef) of
        Inl err \<Rightarrow> Inl err
      | Inr secret \<Rightarrow>
          (case NewSigningKey_error r (sk_Name signingKeyRef) (sk_Algorithm signingKeyRef)
                  (dataString secret ''key.pem'') of
             Some err \<Rightarrow> Inl err
           | None \<Rightarrow>
               Inr \<lparr>key_Name = sk_Name signingKeyRef,
                    key_Algorithm = sk_Algorithm signingKeyRef,
                    key_Pem = dataString secret ''key.pem''\<rparr>))"

definition translateResponse :: "Reconciler \<Rightarrow> AuthConfig \<Rightarrow> Response \<Rightarrow> error + ResponseConfig" where
  "translateResponse r authConfig response =
     (let translatedResponse =
            \<lparr>rc_Name = rs_Name response,
             rc_Priority = rs_Priority response,
             rc_Conditions =
               buildJSONPatternExpressions (spec_Patterns authConfig) (rs_Conditions response),
             rc_Wrapper = rs_Wrapper response,
             rc_WrapperKey = rs_WrapperKey response,
             rc_Metrics = rs_Metrics response,
             rc_Evaluator = None\<rparr>
      in case rs_Type response of
           ResponseWristband wristband \<Rightarrow>
             (case translateEach (signingKeyOf r authConfig) (wb_SigningKeyRefs wristband) of
                Inl err \<Rightarrow> Inl err
              | Inr signingKeys \<Rightarrow>
                  (let customClaims = map toJSONProperty (wb_CustomClaims wristband)
                   in case NewWristbandConfig_error r (wb_Issuer wristband) customClaims
                             (wb_TokenDuration wristband) signingKeys of
                        Some err \<Rightarrow> Inl err
                      | None \<Rightarrow>
                          Inr (translatedResponse\<lparr>rc_Evaluator :=
                            Some (EvWristband (wb_Issuer wristband) customClaims
                                   (wb_TokenDuration wristband) signingKeys)\<rparr>)))
         | ResponseDynamicJSON properties \<Rightarrow>
             Inr (translatedResponse\<lparr>rc_Evaluator :=
               Some (EvDynamicJSON (map toJSONProperty properties))\<rparr>)
         | ResponseTypeUnknown \<Rightarrow> Inl ''unknown response type'')"

text \<open>The conversion \<open>int32(...)\<close> of a Go integer, with its wrap-around.\<close>

definition int32 :: "int \<Rightarrow> int" where
  "int32 n = (n + 2147483648) mod 4294967296 - 2147483648"

definition buildAuthorinoDenyWithValues :: "DenyWithSpec option \<Rightarrow> DenyWithValues option" where
  "buildAuthorinoDenyWithValues denyWithSpec =
     (case denyWithSpec of
        None \<Rightarrow> None
      | Some d \<Rightarrow>
          Some \<lparr>dv_Code = int32 (dw_Code d),
                dv_Message = dw_Message d,
                dv_Headers = map toJSONProperty (dw_Headers d)\<rparr>)"

text \<open>
  \<open>translateAuthConfig\<close>: the four loops in turn, then the one configuration stored under
  every host of the object. The result is a Go map from host to configuration.
\<close>

definition translateAuthConfig :: "Reconciler \<Rightarrow> AuthConfig \<Rightarrow> error + (string \<rightharpoonup> APIConfig)" where
  "translateAuthConfig r authConfig =
     (case translateEach (translateIdentity r authConfig) (spec_Identity authConfig) of
        Inl err \<Rightarrow> Inl err
      | Inr identityConfigs \<Rightarrow>
     (case translateEach (translateMetadata r authConfig identityConfigs)
             (spec_Metadata authConfig) of
        Inl err \<Rightarrow> Inl err
      | Inr metadataConfigs \<Rightarrow>
     (case translateEach (\<lambda>(index, authorization).
                translateAuthorization r authConfig index authorization)
             (enumerate 0 (spec_Authorization authConfig)) of
        Inl err \<Rightarrow> Inl err
      | Inr authorizationConfigs \<Rightarrow>
     (case translateEach (translateResponse r authConfig) (spec_Response authConfig) of
        Inl err \<Rightarrow> Inl err
      | Inr responseConfigs \<Rightarrow>
          (let apiConfig =
                 \<lparr>Conditions =
                    buildJSONPatternExpressions (spec_Patterns authConfig)
                      (spec_Conditions authConfig),
                  IdentityConfigs = identityConfigs,
                  MetadataConfigs = metadataConfigs,
                  AuthorizationConfigs = authorizationConfigs,
                  ResponseConfigs = responseConfigs,
                  Labels = [''namespace'' \<mapsto> ac_Namespace authConfig,
                            ''name'' \<mapsto> ac_Name authConfig],
                  cfg_Unauthenticated = None,
                  cfg_Unauthorized = None\<rparr>;
               apiConfig' =
                 (case spec_DenyWith authConfig of
                    None \<Rightarrow> apiConfig
                  | Some denyWith \<Rightarrow>
                      apiConfig\<lparr>cfg_Unauthenticated :=
                                  buildAuthorinoDenyWithValues (Unauthenticated denyWith),
                                cfg_Unauthorized :=
                                  buildAuthorinoDenyWithValues (Unauthorized denyWith)\<rparr>)
           in Inr (fold (\<lambda>host config. config(host \<mapsto> apiConfig'))
                     (spec_Hosts authConfig) Map.empty))))))"

section \<open>The host index (package pkg/cache) and the cleaning of a configuration\<close>

text \<open>
  The evaluators of a configuration, phase by phase, and the state the reconciler works
  on: the host index, the record of every invocation of \<open>Clean\<close> on an evaluator, in
  order, and the messages logged.
\<close>

datatype Evaluator =
    OfIdentity IdentityConfig
  | OfMetadata MetadataConfig
  | OfAuthorization AuthorizationConfig
  | OfResponse ResponseConfig

definition evaluators :: "APIConfig \<Rightarrow> Evaluator list" where
  "evaluators apiConfig =
     map OfIdentity (IdentityConfigs apiConfig) @
     map OfMetadata (MetadataConfigs apiConfig) @
     map OfAuthorization (AuthorizationConfigs apiConfig) @
     map OfResponse (ResponseConfigs apiConfig)"

text \<open>
  Modelled from the spec: the package \<open>pkg/cache\<close> is missing from the sources. A host
  index entry is \<open>host \<rightarrow> APIConfig\<close> plus the reverse map \<open>configId \<rightarrow> hosts\<close>; the
  binding of a host keeps the \<open>configId\<close> that installed it. The controller hands the
  \<open>configId\<close> over as the string \<open>namespace/name\<close> and indexes the result of \<open>FindKeys\<close>, so
  the hosts of a \<open>configId\<close> are kept as a list without repetition, in the order of their
  binding.
\<close>

record Cache =
  entries :: "string \<rightharpoonup> string \<times> APIConfig"
  keys :: "string \<Rightarrow> string list"

text \<open>
  The namespace component of a \<open>configId\<close>, read the way the controller reads it:
  \<open>strings.Split(cachedKey, "/")[0]\<close>.
\<close>

definition namespaceOf :: "string \<Rightarrow> string" where
  "namespaceOf cachedKey = takeWhile (\<lambda>c. c \<noteq> CHR ''/'') cachedKey"

text \<open>Modelled from the spec: \<open>Get(host) \<rightarrow> APIConfig?\<close>.\<close>

definition Cache_Get :: "Cache \<Rightarrow> string \<Rightarrow> APIConfig option" where
  "Cache_Get c host = map_option snd (entries c host)"

text \<open>Modelled from the spec: \<open>FindId(host) \<rightarrow> configId?\<close>.\<close>

definition Cache_FindId :: "Cache \<Rightarrow> string \<Rightarrow> string option" where
  "Cache_FindId c host = map_option fst (entries c host)"

text \<open>Modelled from the spec: \<open>FindKeys(configId) \<rightarrow> set<host>\<close>.\<close>

definition Cache_FindKeys :: "Cache \<Rightarrow> string \<Rightarrow> string list" where
  "Cache_FindKeys c configId = keys c configId"

text \<open>
  Modelled from the spec: \<open>Set(configId, host, apiConfig, override)\<close> installs a host
  binding; if the host is already bound to a different \<open>configId\<close>, it fails unless
  \<open>override\<close> and the existing binding's namespace matches. Within a namespace the newer
  \<open>configId\<close> supersedes the older binding, which leaves the hosts of the older one.
\<close>

definition install :: "string \<Rightarrow> string \<Rightarrow> APIConfig \<Rightarrow> Cache \<Rightarrow> Cache" where
  "install configId host apiConfig c =
     (let released =
            (case entries c host of
               None \<Rightarrow> keys c
             | Some (boundId, bound) \<Rightarrow> (keys c)(boundId := removeAll host (keys c boundId)))
      in \<lparr>entries = (entries c)(host \<mapsto> (configId, apiConfig)),
          keys = released(configId :=
                   (if host \<in> set (released configId) then released configId
                    else released configId @ [host]))\<rparr>)"

definition Cache_Set :: "string \<Rightarrow> string \<Rightarrow> APIConfig \<Rightarrow> bool \<Rightarrow> Cache \<Rightarrow> error option \<times> Cache" where
  "Cache_Set configId host apiConfig override c =
     (case entries c host of
        None \<Rightarrow> (None, install configId host apiConfig c)
      | Some (boundId, bound) \<Rightarrow>
          if boundId \<noteq> configId \<and> \<not> (override \<and> namespaceOf boundId = namespaceOf configId)
          then (Some ''HostTaken'', c)
          else (None, install configId host apiConfig c))"

record World =
  cache :: Cache
  cleaned :: "Evaluator list"
  logged :: "string list"

text \<open>
  Modelled from the spec: \<open>APIConfig.Clean\<close> (package \<open>pkg/config\<close>) is missing from the
  sources; it calls \<open>Clean\<close> on every evaluator of the configuration. The error it
  reports, if any, is the collaborators' \<open>Clean_error\<close>.
\<close>

definition cleanEvaluators :: "APIConfig \<Rightarrow> World \<Rightarrow> World" where
  "cleanEvaluators apiConfig w = w\<lparr>cleaned := cleaned w @ evaluators apiConfig\<rparr>"

definition APIConfig_Clean :: "Reconciler \<Rightarrow> APIConfig \<Rightarrow> World \<Rightarrow> error option \<times> World" where
  "APIConfig_Clean r apiConfig w = (Clean_error r apiConfig, cleanEvaluators apiConfig w)"

text \<open>
  Modelled from the spec: \<open>Delete(configId)\<close> removes all host bindings of that
  \<open>configId\<close> and invokes \<open>Clean\<close> on the evicted configuration exactly once. The evicted
  configuration is the one that the first host of the \<open>configId\<close> holds; \<open>Delete\<close> returns
  nothing, so an error of that \<open>Clean\<close> has nowhere to go.
\<close>

definition unbind :: "string \<Rightarrow> Cache \<Rightarrow> Cache" where
  "unbind configId c =
     \<lparr>entries = (\<lambda>host. case entries c host of
                          None \<Rightarrow> None
                        | Some (boundId, bound) \<Rightarrow>
                            if boundId = configId then None else Some (boundId, bound)),
      keys = (keys c)(configId := [])\<rparr>"

definition Cache_Delete :: "string \<Rightarrow> World \<Rightarrow> World" where
  "Cache_Delete configId w =
     (let evicted = (case keys (cache w) configId of
                       [] \<Rightarrow> None
                     | host # others \<Rightarrow> Cache_Get (cache w) host);
          w' = w\<lparr>cache := unbind configId (cache w)\<rparr>
      in case evicted of
           None \<Rightarrow> w'
         | Some apiConfig \<Rightarrow> cleanEvaluators apiConfig w')"

section \<open>Reconcile\<close>

definition failedToCleanConfig :: string where
  "failedToCleanConfig = ''failed to clean up all asynchronous workers''"

definition logInfo :: "string \<Rightarrow> World \<Rightarrow> World" where
  "logInfo msg w = w\<lparr>logged := logged w @ [msg]\<rparr>"

definition cleanConfigs :: "Reconciler \<Rightarrow> string \<Rightarrow> World \<Rightarrow> error option \<times> World" where
  "cleanConfigs r cacheId w =
     (case Cache_FindKeys (cache w) cacheId of
        [] \<Rightarrow> (None, w)
      | host # others \<Rightarrow>
          (case Cache_Get (cache w) host of
             None \<Rightarrow> (None, w)
           | Some authConfig \<Rightarrow> APIConfig_Clean r authConfig w))"

text \<open>The call of \<open>cleanConfigs\<close> with the logging of its error, as both branches do.\<close>

definition cleanAndLog :: "Reconciler \<Rightarrow> string \<Rightarrow> World \<Rightarrow> World" where
  "cleanAndLog r cacheId w =
     (case cleanConfigs r cacheId w of
        (Some err, w') \<Rightarrow> logInfo failedToCleanConfig w'
      | (None, w') \<Rightarrow> w')"

record Request =
  req_Namespace :: string
  req_Name :: string

text \<open>\<open>req.String()\<close>: namespace, separator, name.\<close>

definition Request_String :: "Request \<Rightarrow> string" where
  "Request_String req = req_Namespace req @ ''/'' @ req_Name req"

text \<open>
  The loop over the map that the translation returned. Go ranges over a map in an order
  of its own choosing: \<open>order\<close> is the order taken, a list of the keys of the map. A host
  that collides with another namespace ends the whole reconciliation with a nil error.
\<close>

fun bindHosts ::
  "Request \<Rightarrow> string \<Rightarrow> (string \<rightharpoonup> APIConfig) \<Rightarrow> string list \<Rightarrow> World \<Rightarrow> error option \<times> World"
where
  "bindHosts req cacheId authConfigByHost [] w = (None, logInfo ''resource reconciled'' w)"
| "bindHosts req cacheId authConfigByHost (host # rest) w =
     (case authConfigByHost host of
        None \<Rightarrow> bindHosts req cacheId authConfigByHost rest w
      | Some apiConfig \<Rightarrow>
          (case Cache_FindId (cache w) host of
             Some cachedKey \<Rightarrow>
               if namespaceOf cachedKey \<noteq> req_Namespace req
               then (None, logInfo ''host already taken in another namespace'' w)
               else (case Cache_Set cacheId host apiConfig True (cache w) of
                       (Some err, c) \<Rightarrow> (Some err, w\<lparr>cache := c\<rparr>)
                     | (None, c) \<Rightarrow> bindHosts req cacheId authConfigByHost rest (w\<lparr>cache := c\<rparr>))
           | None \<Rightarrow>
               (case Cache_Set cacheId host apiConfig True (cache w) of
                  (Some err, c) \<Rightarrow> (Some err, w\<lparr>cache := c\<rparr>)
                | (None, c) \<Rightarrow> bindHosts req cacheId authConfigByHost rest (w\<lparr>cache := c\<rparr>))))"

text \<open>What \<open>r.Get\<close> yields for the object of the request.\<close>

datatype GetResult = GetFailed error | GetNotFound | GetFound AuthConfig

definition deleted :: "Reconciler \<Rightarrow> string \<Rightarrow> World \<Rightarrow> error option \<times> World" where
  "deleted r cacheId w =
     (let w1 = cleanAndLog r cacheId w;
          w2 = Cache_Delete cacheId w1
      in (None, logInfo ''resource reconciled'' w2))"

definition Reconcile ::
  "Reconciler \<Rightarrow> Request \<Rightarrow> GetResult \<Rightarrow> string list \<Rightarrow> World \<Rightarrow> error option \<times> World"
where
  "Reconcile r req got order w =
     (let cacheId = Request_String req
      in case got of
           GetFailed err \<Rightarrow> (Some err, w)
         | GetNotFound \<Rightarrow> deleted r cacheId w
         | GetFound authConfig \<Rightarrow>
             if \<not> Watched r authConfig then deleted r cacheId w
             else
               (let w1 = cleanAndLog r cacheId w
                in case translateAuthConfig r authConfig of
                     Inl err \<Rightarrow> (Some err, w1)
                   | Inr authConfigByHost \<Rightarrow> bindHosts req cacheId authConfigByHost order w1))"

section \<open>Readings of the specification for the reconciler\<close>

text \<open>
  The names of the secrets an object refers to, whether one of its evaluators is of an
  unknown type, and whether a user-info metadata names an identity the object does not
  have.
\<close>

definition identitySecrets :: "Identity \<Rightarrow> string list" where
  "identitySecrets identity =
     (case id_Type identity of
        IdentityOAuth2 tokenIntrospectionUrl tokenTypeHint credentialsName \<Rightarrow> [credentialsName]
      | _ \<Rightarrow> [])"

definition metadataSecrets :: "Metadata \<Rightarrow> string list" where
  "metadataSecrets metadata =
     (case md_Type metadata of
        MetadataUma endpoint credentialsName \<Rightarrow> [credentialsName]
      | MetadataGenericHTTP genericHttp \<Rightarrow>
          (case gh_SharedSecret genericHttp of
             None \<Rightarrow> []
           | Some sharedSecretRef \<Rightarrow> [skr_Name sharedSecretRef])
      | _ \<Rightarrow> [])"

definition authorizationSecrets :: "Authorization \<Rightarrow> string list" where
  "authorizationSecrets authorization =
     (case az_Type authorization of
        AuthorizationOPA opa \<Rightarrow>
          (case er_SharedSecret (opa_ExternalRegistry opa) of
             None \<Rightarrow> []
           | Some sharedSecretRef \<Rightarrow> [skr_Name sharedSecretRef])
      | _ \<Rightarrow> [])"

definition responseSecrets :: "Response \<Rightarrow> string list" where
  "responseSecrets response =
     (case rs_Type response of
        ResponseWristband wristband \<Rightarrow> map sk_Name (wb_SigningKeyRefs wristband)
      | _ \<Rightarrow> [])"

definition referencedSecrets :: "AuthConfig \<Rightarrow> string list" where
  "referencedSecrets authConfig =
     concat (map identitySecrets (spec_Identity authConfig)) @
     concat (map metadataSecrets (spec_Metadata authConfig)) @
     concat (map authorizationSecrets (spec_Authorization authConfig)) @
     concat (map responseSecrets (spec_Response authConfig))"

definition hasUnknownType :: "AuthConfig \<Rightarrow> bool" where
  "hasUnknownType authConfig =
     (list_ex (\<lambda>identity. id_Type identity = IdentityTypeUnknown) (spec_Identity authConfig) \<or>
      list_ex (\<lambda>metadata. md_Type metadata = MetadataTypeUnknown) (spec_Metadata authConfig) \<or>
      list_ex (\<lambda>authorization. az_Type authorization = AuthorizationTypeUnknown)
        (spec_Authorization authConfig) \<or>
      list_ex (\<lambda>response. rs_Type response = ResponseTypeUnknown) (spec_Response authConfig))"

definition hasMissingIdentitySource :: "AuthConfig \<Rightarrow> bool" where
  "hasMissingIdentitySource authConfig =
     list_ex (\<lambda>metadata.
        case md_Type metadata of
          MetadataUserinfo identitySource \<Rightarrow>
            identitySource \<notin> set (map id_Name (spec_Identity authConfig))
        | _ \<Rightarrow> False) (spec_Metadata authConfig)"

text \<open>
  A host collides when it is bound to a \<open>configId\<close> of another namespace than the
  request's; the hosts reached are those that the loop over the translated map visits
  before the first colliding one.
\<close>

definition collides :: "Cache \<Rightarrow> Request \<Rightarrow> string \<Rightarrow> bool" where
  "collides c req host =
     (case Cache_FindId c host of
        Some cachedKey \<Rightarrow> namespaceOf cachedKey \<noteq> req_Namespace req
      | None \<Rightarrow> False)"

definition reached :: "Cache \<Rightarrow> Request \<Rightarrow> string list \<Rightarrow> string list" where
  "reached c req order = takeWhile (\<lambda>host. \<not> collides c req host) order"

section \<open>A small cluster used to run the model\<close>

text \<open>
  A cluster-wide reconciler whose cluster holds no secrets and whose collaborators never
  refuse; an object \<open>blue/configB\<close> with an anonymous identity and the hosts \<open>a.com\<close> and
  \<open>foo.com\<close>; a configuration \<open>configA\<close> of the namespace \<open>red\<close>.
\<close>

definition exampleReconciler :: Reconciler where
  "exampleReconciler =
     \<lparr>r_Namespace = [],
      client_Get = (\<lambda>namespace name. Inl ''secret not found''),
      client_List = (\<lambda>opts. Inr []),
      Watched = (\<lambda>authConfig. True),
      discover = (\<lambda>endpoint. Inl ''unreachable''),
      startWorker = (\<lambda>ttl. (None, Some ''disabled'')),
      NewKubernetesAuthIdentity_error = (\<lambda>authCred audiences. None),
      NewUMAMetadata_error = (\<lambda>endpoint clientID clientSecret. None),
      NewOPAAuthorization_error = (\<lambda>policyName rego source allValues index. None),
      NewKubernetesAuthz_error = (\<lambda>user groups attributes. None),
      NewSigningKey_error = (\<lambda>name algorithm pem. None),
      NewWristbandConfig_error = (\<lambda>issuer claims duration signingKeys. None),
      Clean_error = (\<lambda>apiConfig. None)\<rparr>"

definition exampleIdentity :: "IdentityType \<Rightarrow> Identity" where
  "exampleIdentity type =
     \<lparr>id_Name = ''friends'', id_Priority = 0, id_Conditions = [], id_Metrics = False,
      id_Credentials = \<lparr>KeySelector = ''APIKEY'', In = ''authorization_header''\<rparr>,
      id_ExtendedProperties = [], id_Type = type\<rparr>"

definition exampleAuthConfig :: "IdentityType \<Rightarrow> AuthConfig" where
  "exampleAuthConfig type =
     \<lparr>ac_Namespace = ''blue'', ac_Name = ''configB'',
      spec_Hosts = [''a.com'', ''foo.com''],
      spec_Patterns = Map.empty, spec_Conditions = [],
      spec_Identity = [exampleIdentity type],
      spec_Metadata = [], spec_Authorization = [], spec_Response = [],
      spec_DenyWith = None\<rparr>"

definition exampleRequest :: Request where
  "exampleRequest = \<lparr>req_Namespace = ''blue'', req_Name = ''configB''\<rparr>"

definition configA :: APIConfig where
  "configA =
     \<lparr>Conditions = [],
      IdentityConfigs =
        [\<lparr>ic_Name = ''anyone'', ic_Priority = 0, ic_Conditions = [],
          ic_ExtendedProperties = [], ic_Metrics = False,
          ic_Evaluator = Some (EvNoop \<lparr>cred_KeySelector = ''Bearer'',
                                        cred_In = ''authorization_header''\<rparr>)\<rparr>],
      MetadataConfigs = [], AuthorizationConfigs = [], ResponseConfigs = [],
      Labels = [''namespace'' \<mapsto> ''red'', ''name'' \<mapsto> ''configA''],
      cfg_Unauthenticated = None, cfg_Unauthorized = None\<rparr>"

text \<open>The index in which \<open>red/configA\<close> owns \<open>foo.com\<close>.\<close>

definition redOwnsFoo :: World where
  "redOwnsFoo =
     \<lparr>cache = \<lparr>entries = [''foo.com'' \<mapsto> (''red/configA'', configA)],
               keys = (\<lambda>configId. [])(''red/configA'' := [''foo.com''])\<rparr>,
      cleaned = [], logged = []\<rparr>"

text \<open>The index in which \<open>blue/configB\<close> holds two hosts with one configuration.\<close>

definition blueOwnsTwo :: World where
  "blueOwnsTwo =
     \<lparr>cache = \<lparr>entries = [''a.com'' \<mapsto> (''blue/configB'', configA),
                         ''b.com'' \<mapsto> (''blue/configB'', configA)],
               keys = (\<lambda>configId. [])(''blue/configB'' := [''a.com'', ''b.com''])\<rparr>,
      cleaned = [], logged = []\<rparr>"

text \<open>
  Successive versions of \<open>blue/configB\<close>, told apart by the name of their one identity, an
  empty index, and the run of three reconciliations in which the object first claims
  \<open>a.com\<close> and \<open>b.com\<close>, then twice \<open>b.com\<close> alone.
\<close>

definition exampleVersion :: "string list \<Rightarrow> string \<Rightarrow> AuthConfig" where
  "exampleVersion hosts version =
     \<lparr>ac_Namespace = ''blue'', ac_Name = ''configB'',
      spec_Hosts = hosts,
      spec_Patterns = Map.empty, spec_Conditions = [],
      spec_Identity =
        [\<lparr>id_Name = version, id_Priority = 0, id_Conditions = [], id_Metrics = False,
          id_Credentials = \<lparr>KeySelector = ''Bearer'', In = ''authorization_header''\<rparr>,
          id_ExtendedProperties = [], id_Type = IdentityAnonymous\<rparr>],
      spec_Metadata = [], spec_Authorization = [], spec_Response = [],
      spec_DenyWith = None\<rparr>"

definition emptyIndex :: World where
  "emptyIndex = \<lparr>cache = \<lparr>entries = Map.empty, keys = (\<lambda>configId. [])\<rparr>, cleaned = [], logged = []\<rparr>"

definition evaluatorName :: "Evaluator \<Rightarrow> string" where
  "evaluatorName evaluator =
     (case evaluator of
        OfIdentity c \<Rightarrow> ic_Name c
      | OfMetadata c \<Rightarrow> mc_Name c
      | OfAuthorization c \<Rightarrow> zc_Name c
      | OfResponse c \<Rightarrow> rc_Name c)"

definition boundIdentities :: "World \<Rightarrow> string \<Rightarrow> string list option" where
  "boundIdentities w host =
     map_option (\<lambda>apiConfig. map ic_Name (IdentityConfigs apiConfig)) (Cache_Get (cache w) host)"

definition threeVersions :: "World \<times> World \<times> World" where
  "threeVersions =
     (let w1 = snd (Reconcile exampleReconciler exampleRequest
                 (GetFound (exampleVersion [''a.com'', ''b.com''] ''v1''))
                 [''a.com'', ''b.com''] emptyIndex);
          w2 = snd (Reconcile exampleReconciler exampleRequest
                 (GetFound (exampleVersion [''b.com''] ''v2'')) [''b.com''] w1);
          w3 = snd (Reconcile exampleReconciler exampleRequest
                 (GetFound (exampleVersion [''b.com''] ''v3'')) [''b.com''] w2)
      in (w1, w2, w3))"

section \<open>Go values in a store, for the generated deep copies (api/v1beta1)\<close>

text \<open>
  Whether a copy shares memory with its original is a matter of addresses, so the values
  of the API structs are modelled in an explicit store. A value is a scalar (strings,
  numbers and booleans alike), nil, a non-nil pointer, slice or map given by the address of
  what it refers to, or a struct held by value with its fields in order. A cell of the
  store is the target of a pointer, the elements of a slice or the keys and values of a
  map. Addresses are handed out in increasing order.
\<close>

type_synonym addr = nat

datatype val = Atom string | NilRef | Ref addr | Struct "val list"

datatype cell = Pointee val | Elements "val list" | Entries "string list" "val list"

record Heap =
  cells :: "addr \<rightharpoonup> cell"
  next_free :: addr

text \<open>\<open>new(T)\<close> and \<open>make(...)\<close>: a fresh cell.\<close>

definition alloc :: "cell \<Rightarrow> Heap \<Rightarrow> addr \<times> Heap" where
  "alloc c h =
     (next_free h, \<lparr>cells = (cells h)(next_free h \<mapsto> c), next_free = Suc (next_free h)\<rparr>)"

text \<open>
  A \<open>DeepCopyInto\<close> reads the value \<open>in\<close> in a store and yields the value written to
  \<open>out\<close> with the store after its allocations.
\<close>

type_synonym copier = "Heap \<Rightarrow> val \<Rightarrow> Heap \<times> val"

text \<open>
  The assignments \<open>*out = *in\<close>, \<open>out.F = in.F\<close> and \<open>**out = **in\<close>: the value itself,
  with whatever addresses it holds.
\<close>

definition assign :: copier where
  "assign h v = (h, v)"

text \<open>
  The body of a \<open>DeepCopyInto\<close>: after \<open>*out = *in\<close>, one statement per field, in the
  order of the fields, the store threaded through. Fields beyond the copiers listed keep
  the assigned value.
\<close>

fun copyFields :: "copier list \<Rightarrow> Heap \<Rightarrow> val list \<Rightarrow> Heap \<times> val list" where
  "copyFields (c # cs) h (v # vs) =
     (case c h v of
        (h1, v') \<Rightarrow> (case copyFields cs h1 vs of (h2, vs') \<Rightarrow> (h2, v' # vs')))"
| "copyFields cs h vs = (h, vs)"

definition struct :: "copier list \<Rightarrow> copier" where
  "struct cs h v =
     (case v of
        Struct vs \<Rightarrow> (case copyFields cs h vs of (h', vs') \<Rightarrow> (h', Struct vs'))
      | _ \<Rightarrow> (h, v))"

text \<open>The loop \<open>for i := range *in\<close> that copies element by element.\<close>

fun copyEach :: "copier \<Rightarrow> Heap \<Rightarrow> val list \<Rightarrow> Heap \<times> val list" where
  "copyEach c h [] = (h, [])"
| "copyEach c h (v # vs) =
     (case c h v of
        (h1, v') \<Rightarrow> (case copyEach c h1 vs of (h2, vs') \<Rightarrow> (h2, v' # vs')))"

text \<open>
  \<open>if in.F != nil { *out = new(T); c }\<close> where \<open>c\<close> fills the new target from the old one
  (\<open>(*in).DeepCopyInto(*out)\<close>, or \<open>**out = **in\<close> for \<open>c = assign\<close>); nil stays nil. The
  model allocates the target once its content is known; the code allocates it first.
\<close>

definition newCopy :: "copier \<Rightarrow> copier" where
  "newCopy c h v =
     (case v of
        Ref a \<Rightarrow>
          (case cells h a of
             Some (Pointee x) \<Rightarrow>
               (case c h x of
                  (h1, x') \<Rightarrow> (case alloc (Pointee x') h1 of (a', h2) \<Rightarrow> (h2, Ref a')))
           | _ \<Rightarrow> (h, v))
      | _ \<Rightarrow> (h, v))"

text \<open>
  \<open>if in.F != nil { *out = make([]T, len(*in)); for i := range *in { c } }\<close>: a new slice
  of the same length, each element copied by \<open>c\<close>.
\<close>

definition makeEach :: "copier \<Rightarrow> copier" where
  "makeEach c h v =
     (case v of
        Ref a \<Rightarrow>
          (case cells h a of
             Some (Elements xs) \<Rightarrow>
               (case copyEach c h xs of
                  (h1, xs') \<Rightarrow> (case alloc (Elements xs') h1 of (a', h2) \<Rightarrow> (h2, Ref a')))
           | _ \<Rightarrow> (h, v))
      | _ \<Rightarrow> (h, v))"

text \<open>\<open>*out = make([]T, len(*in)); copy(*out, *in)\<close>: the elements are assigned.\<close>

definition makeCopy :: copier where
  "makeCopy = makeEach assign"

text \<open>
  \<open>*out = make(map[string]T, len(*in)); for key, val := range *in { ... (*out)[key] = outVal }\<close>:
  a new map with the same keys, each value copied by \<open>c\<close>.
\<close>

definition makeMap :: "copier \<Rightarrow> copier" where
  "makeMap c h v =
     (case v of
        Ref a \<Rightarrow>
          (case cells h a of
             Some (Entries ks xs) \<Rightarrow>
               (case copyEach c h xs of
                  (h1, xs') \<Rightarrow> (case alloc (Entries ks xs') h1 of (a', h2) \<Rightarrow> (h2, Ref a')))
           | _ \<Rightarrow> (h, v))
      | _ \<Rightarrow> (h, v))"

text \<open>
  What a value stands for, addresses forgotten: a tree. \<open>denotesIn S h v t\<close> says that
  the value \<open>v\<close> read in the store \<open>h\<close> is the tree \<open>t\<close> and that every cell read on the
  way lies in \<open>S\<close>. Two values are structurally equal when they denote the same tree.
\<close>

datatype tree =
    TAtom string | TNil | TStruct "tree list"
  | TPointee tree | TElements "tree list" | TEntries "string list" "tree list"

fun denotesIn :: "addr set \<Rightarrow> Heap \<Rightarrow> val \<Rightarrow> tree \<Rightarrow> bool" where
  "denotesIn S h v (TAtom s) = (v = Atom s)"
| "denotesIn S h v TNil = (v = NilRef)"
| "denotesIn S h v (TStruct ts) =
     (case v of Struct vs \<Rightarrow> list_all2 (\<lambda>x t. denotesIn S h x t) vs ts | _ \<Rightarrow> False)"
| "denotesIn S h v (TPointee t) =
     (case v of
        Ref a \<Rightarrow> a \<in> S \<and> (case cells h a of Some (Pointee x) \<Rightarrow> denotesIn S h x t | _ \<Rightarrow> False)
      | _ \<Rightarrow> False)"
| "denotesIn S h v (TElements ts) =
     (case v of
        Ref a \<Rightarrow> a \<in> S \<and>
          (case cells h a of
             Some (Elements xs) \<Rightarrow> list_all2 (\<lambda>x t. denotesIn S h x t) xs ts
           | _ \<Rightarrow> False)
      | _ \<Rightarrow> False)"
| "denotesIn S h v (TEntries ks ts) =
     (case v of
        Ref a \<Rightarrow> a \<in> S \<and>
          (case cells h a of
             Some (Entries ks' xs) \<Rightarrow> ks' = ks \<and> list_all2 (\<lambda>x t. denotesIn S h x t) xs ts
           | _ \<Rightarrow> False)
      | _ \<Rightarrow> False)"

text \<open>
  The Go types, as sets of trees. The declarations of the API structs are not part of the
  sources at hand; the generated functions name the type of every pointer, slice and map
  they allocate, and a field that they only assign is taken to hold no pointer, slice or
  map (\<open>refFree\<close>), which is when the generator emits a plain assignment.
\<close>

fun refFree :: "tree \<Rightarrow> bool" where
  "refFree (TAtom s) = True"
| "refFree TNil = True"
| "refFree (TStruct ts) = list_all refFree ts"
| "refFree (TPointee t) = False"
| "refFree (TElements ts) = False"
| "refFree (TEntries ks ts) = False"

fun structOf :: "(tree \<Rightarrow> bool) list \<Rightarrow> tree \<Rightarrow> bool" where
  "structOf Ps (TStruct ts) = list_all2 (\<lambda>P t. P t) Ps ts"
| "structOf Ps t = False"

fun pointerTo :: "(tree \<Rightarrow> bool) \<Rightarrow> tree \<Rightarrow> bool" where
  "pointerTo P TNil = True"
| "pointerTo P (TPointee t) = P t"
| "pointerTo P t = False"

fun elementsOf :: "(tree \<Rightarrow> bool) \<Rightarrow> tree \<Rightarrow> bool" where
  "elementsOf P TNil = True"
| "elementsOf P (TElements ts) = list_all P ts"
| "elementsOf P t = False"

fun entriesOf :: "(tree \<Rightarrow> bool) \<Rightarrow> tree \<Rightarrow> bool" where
  "entriesOf P TNil = True"
| "entriesOf P (TEntries ks ts) = list_all P ts"
| "entriesOf P t = False"

text \<open>
  A store is well formed when nothing lies at or beyond the next free address. A store
  \<open>h'\<close> keeps \<open>h\<close> when it is well formed, has handed out no fewer addresses and holds the
  cells of \<open>h\<close> unchanged. A copier is deep on a type when, for every value of the type
  in a well-formed store, the result denotes the same tree, reads only cells allocated by
  the copy, and the store after keeps the store before.
\<close>

definition wellFormed :: "Heap \<Rightarrow> bool" where
  "wellFormed h = (\<forall>a. next_free h \<le> a \<longrightarrow> cells h a = None)"

definition keeps :: "Heap \<Rightarrow> Heap \<Rightarrow> bool" where
  "keeps h h' =
     (wellFormed h' \<and> next_free h \<le> next_free h' \<and>
      (\<forall>a. a < next_free h \<longrightarrow> cells h' a = cells h a))"

definition deep :: "(tree \<Rightarrow> bool) \<Rightarrow> copier \<Rightarrow> bool" where
  "deep P c =
     (\<forall>h v t. wellFormed h \<longrightarrow> P t \<longrightarrow> denotesIn {..<next_free h} h v t \<longrightarrow>
        (case c h v of
           (h', v') \<Rightarrow> keeps h h' \<and> denotesIn {next_free h..<next_free h'} h' v' t))"

text \<open>
  The deep copies of the Kubernetes libraries that the generated code calls, each with the
  type it copies: \<open>metav1.ObjectMeta\<close>, \<open>runtime.RawExtension\<close>, \<open>metav1.LabelSelector\<close>
  and \<open>metav1.Time\<close>. They are deep when each is deep on its type.
\<close>

record Library =
  ObjectMeta_DeepCopyInto :: copier
  ObjectMeta_type :: "tree \<Rightarrow> bool"
  RawExtension_DeepCopyInto :: copier
  RawExtension_type :: "tree \<Rightarrow> bool"
  LabelSelector_DeepCopyInto :: copier
  LabelSelector_type :: "tree \<Rightarrow> bool"
  Time_DeepCopyInto :: copier
  Time_type :: "tree \<Rightarrow> bool"

definition libraryDeep :: "Library \<Rightarrow> bool" where
  "libraryDeep lib =
     (deep (ObjectMeta_type lib) (ObjectMeta_DeepCopyInto lib) \<and>
      deep (RawExtension_type lib) (RawExtension_DeepCopyInto lib) \<and>
      deep (LabelSelector_type lib) (LabelSelector_DeepCopyInto lib) \<and>
      deep (Time_type lib) (Time_DeepCopyInto lib))"

section \<open>The generated DeepCopyInto functions (package api/v1beta1)\<close>

text \<open>
  Each function is \<open>*out = *in\<close> followed by one statement per field that needs more.
  A struct is modelled with one slot for each field that the function names, in the order
  of the function, after a first slot for all its other fields (which the assignment of
  the whole struct settles). Next to each function stands the type of the struct it
  copies. Only the functions that \<open>AuthConfig.DeepCopy\<close> reaches are listed, callees
  first.
\<close>

definition JsonProperty_DeepCopyInto :: "Library \<Rightarrow> copier" where
  "JsonProperty_DeepCopyInto lib =
     struct [assign,  \<comment> \<open>Name\<close>
             RawExtension_DeepCopyInto lib,  \<comment> \<open>Value\<close>
             assign]  \<comment> \<open>ValueFrom\<close>"

definition JsonProperty_type :: "Library \<Rightarrow> tree \<Rightarrow> bool" where
  "JsonProperty_type lib =
     structOf [refFree,  \<comment> \<open>Name\<close>
               RawExtension_type lib,  \<comment> \<open>Value\<close>
               refFree]  \<comment> \<open>ValueFrom\<close>"

definition Identity_OAuth2Config_DeepCopyInto :: "Library \<Rightarrow> copier" where
  "Identity_OAuth2Config_DeepCopyInto lib =
     struct [assign,  \<comment> \<open>the other fields\<close>
             newCopy assign]  \<comment> \<open>Credentials\<close>"

definition Identity_OAuth2Config_type :: "Library \<Rightarrow> tree \<Rightarrow> bool" where
  "Identity_OAuth2Config_type lib =
     structOf [refFree,  \<comment> \<open>the other fields\<close>
               pointerTo refFree]  \<comment> \<open>Credentials\<close>"

definition Identity_APIKey_DeepCopyInto :: "Library \<Rightarrow> copier" where
  "Identity_APIKey_DeepCopyInto lib =
     struct [assign,  \<comment> \<open>the other fields\<close>
             newCopy (LabelSelector_DeepCopyInto lib)]  \<comment> \<open>Selector\<close>"

definition Identity_APIKey_type :: "Library \<Rightarrow> tree \<Rightarrow> bool" where
  "Identity_APIKey_type lib =
     structOf [refFree,  \<comment> \<open>the other fields\<close>
               pointerTo (LabelSelector_type lib)]  \<comment> \<open>Selector\<close>"

definition Identity_MTLS_DeepCopyInto :: "Library \<Rightarrow> copier" where
  "Identity_MTLS_DeepCopyInto lib =
     struct [assign,  \<comment> \<open>the other fields\<close>
             newCopy (LabelSelector_DeepCopyInto lib)]  \<comment> \<open>Selector\<close>"

definition Identity_MTLS_type :: "Library \<Rightarrow> tree \<Rightarrow> bool" where
  "Identity_MTLS_type lib =
     structOf [refFree,  \<comment> \<open>the other fields\<close>
               pointerTo (LabelSelector_type lib)]  \<comment> \<open>Selector\<close>"

definition Identity_KubernetesAuth_DeepCopyInto :: "Library \<Rightarrow> copier" where
  "Identity_KubernetesAuth_DeepCopyInto lib =
     struct [assign,  \<comment> \<open>the other fields\<close>
             makeCopy]  \<comment> \<open>Audiences\<close>"

definition Identity_KubernetesAuth_type :: "Library \<Rightarrow> tree \<Rightarrow> bool" where
  "Identity_KubernetesAuth_type lib =
     structOf [refFree,  \<comment> \<open>the other fields\<close>
               elementsOf refFree]  \<comment> \<open>Audiences\<close>"

definition Identity_DeepCopyInto :: "Library \<Rightarrow> copier" where
  "Identity_DeepCopyInto lib =
     struct [assign,  \<comment> \<open>the other fields\<close>
             makeCopy,  \<comment> \<open>Conditions\<close>
             newCopy assign,  \<comment> \<open>Cache\<close>
             assign,  \<comment> \<open>Credentials\<close>
             makeEach (JsonProperty_DeepCopyInto lib),  \<comment> \<open>ExtendedProperties\<close>
             newCopy (Identity_OAuth2Config_DeepCopyInto lib),  \<comment> \<open>OAuth2\<close>
             newCopy assign,  \<comment> \<open>Oidc\<close>
             newCopy (Identity_APIKey_DeepCopyInto lib),  \<comment> \<open>APIKey\<close>
             newCopy (Identity_MTLS_DeepCopyInto lib),  \<comment> \<open>MTLS\<close>
             newCopy (Identity_KubernetesAuth_DeepCopyInto lib),  \<comment> \<open>KubernetesAuth\<close>
             newCopy assign,  \<comment> \<open>Anonymous\<close>
             newCopy assign]  \<comment> \<open>Plain\<close>"

definition Identity_type :: "Library \<Rightarrow> tree \<Rightarrow> bool" where
  "Identity_type lib =
     structOf [refFree,  \<comment> \<open>the other fields\<close>
               elementsOf refFree,  \<comment> \<open>Conditions\<close>
               pointerTo refFree,  \<comment> \<open>Cache\<close>
               refFree,  \<comment> \<open>Credentials\<close>
               elementsOf (JsonProperty_type lib),  \<comment> \<open>ExtendedProperties\<close>
               pointerTo (Identity_OAuth2Config_type lib),  \<comment> \<open>OAuth2\<close>
               pointerTo refFree,  \<comment> \<open>Oidc\<close>
               pointerTo (Identity_APIKey_type lib),  \<comment> \<open>APIKey\<close>
               pointerTo (Identity_MTLS_type lib),  \<comment> \<open>MTLS\<close>
               pointerTo (Identity_KubernetesAuth_type lib),  \<comment> \<open>KubernetesAuth\<close>
               pointerTo refFree,  \<comment> \<open>Anonymous\<close>
               pointerTo refFree]  \<comment> \<open>Plain\<close>"

definition Metadata_UMA_DeepCopyInto :: "Library \<Rightarrow> copier" where
  "Metadata_UMA_DeepCopyInto lib =
     struct [assign,  \<comment> \<open>the other fields\<close>
             newCopy assign]  \<comment> \<open>Credentials\<close>"

definition Metadata_UMA_type :: "Library \<Rightarrow> tree \<Rightarrow> bool" where
  "Metadata_UMA_type lib =
     structOf [refFree,  \<comment> \<open>the other fields\<close>
               pointerTo refFree]  \<comment> \<open>Credentials\<close>"

definition OAuth2ClientAuthentication_DeepCopyInto :: "Library \<Rightarrow> copier" where
  "OAuth2ClientAuthentication_DeepCopyInto lib =
     struct [assign,  \<comment> \<open>the other fields\<close>
             assign,  \<comment> \<open>ClientSecret\<close>
             makeCopy,  \<comment> \<open>Scopes\<close>
             makeMap assign,  \<comment> \<open>ExtraParams\<close>
             newCopy assign]  \<comment> \<open>Cache\<close>"

definition OAuth2ClientAuthentication_type :: "Library \<Rightarrow> tree \<Rightarrow> bool" where
  "OAuth2ClientAuthentication_type lib =
     structOf [refFree,  \<comment> \<open>the other fields\<close>
               refFree,  \<comment> \<open>ClientSecret\<close>
               elementsOf refFree,  \<comment> \<open>Scopes\<close>
               entriesOf refFree,  \<comment> \<open>ExtraParams\<close>
               pointerTo refFree]  \<comment> \<open>Cache\<close>"

definition Metadata_GenericHTTP_DeepCopyInto :: "Library \<Rightarrow> copier" where
  "Metadata_GenericHTTP_DeepCopyInto lib =
     struct [assign,  \<comment> \<open>the other fields\<close>
             newCopy assign,  \<comment> \<open>Method\<close>
             newCopy assign,  \<comment> \<open>Body\<close>
             makeEach (JsonProperty_DeepCopyInto lib),  \<comment> \<open>Parameters\<close>
             makeEach (JsonProperty_DeepCopyInto lib),  \<comment> \<open>Headers\<close>
             newCopy assign,  \<comment> \<open>SharedSecret\<close>
             newCopy (OAuth2ClientAuthentication_DeepCopyInto lib),  \<comment> \<open>OAuth2\<close>
             assign]  \<comment> \<open>Credentials\<close>"

definition Metadata_GenericHTTP_type :: "Library \<Rightarrow> tree \<Rightarrow> bool" where
  "Metadata_GenericHTTP_type lib =
     structOf [refFree,  \<comment> \<open>the other fields\<close>
               pointerTo refFree,  \<comment> \<open>Method\<close>
               pointerTo refFree,  \<comment> \<open>Body\<close>
               elementsOf (JsonProperty_type lib),  \<comment> \<open>Parameters\<close>
               elementsOf (JsonProperty_type lib),  \<comment> \<open>Headers\<close>
               pointerTo refFree,  \<comment> \<open>SharedSecret\<close>
               pointerTo (OAuth2ClientAuthentication_type lib),  \<comment> \<open>OAuth2\<close>
               refFree]  \<comment> \<open>Credentials\<close>"

definition Metadata_DeepCopyInto :: "Library \<Rightarrow> copier" where
  "Metadata_DeepCopyInto lib =
     struct [assign,  \<comment> \<open>the other fields\<close>
             makeCopy,  \<comment> \<open>Conditions\<close>
             newCopy assign,  \<comment> \<open>Cache\<close>
             newCopy assign,  \<comment> \<open>UserInfo\<close>
             newCopy (Metadata_UMA_DeepCopyInto lib),  \<comment> \<open>UMA\<close>
             newCopy (Metadata_GenericHTTP_DeepCopyInto lib)]  \<comment> \<open>GenericHTTP\<close>"

definition Metadata_type :: "Library \<Rightarrow> tree \<Rightarrow> bool" where
  "Metadata_type lib =
     structOf [refFree,  \<comment> \<open>the other fields\<close>
               elementsOf refFree,  \<comment> \<open>Conditions\<close>
               pointerTo refFree,  \<comment> \<open>Cache\<close>
               pointerTo refFree,  \<comment> \<open>UserInfo\<close>
               pointerTo (Metadata_UMA_type lib),  \<comment> \<open>UMA\<close>
               pointerTo (Metadata_GenericHTTP_type lib)]  \<comment> \<open>GenericHTTP\<close>"

definition ExternalRegistry_DeepCopyInto :: "Library \<Rightarrow> copier" where
  "ExternalRegistry_DeepCopyInto lib =
     struct [assign,  \<comment> \<open>the other fields\<close>
             newCopy assign,  \<comment> \<open>SharedSecret\<close>
             assign]  \<comment> \<open>Credentials\<close>"

definition ExternalRegistry_type :: "Library \<Rightarrow> tree \<Rightarrow> bool" where
  "ExternalRegistry_type lib =
     structOf [refFree,  \<comment> \<open>the other fields\<close>
               pointerTo refFree,  \<comment> \<open>SharedSecret\<close>
               refFree]  \<comment> \<open>Credentials\<close>"

definition Authorization_OPA_DeepCopyInto :: "Library \<Rightarrow> copier" where
  "Authorization_OPA_DeepCopyInto lib =
     struct [assign,  \<comment> \<open>the other fields\<close>
             ExternalRegistry_DeepCopyInto lib]  \<comment> \<open>ExternalRegistry\<close>"

definition Authorization_OPA_type :: "Library \<Rightarrow> tree \<Rightarrow> bool" where
  "Authorization_OPA_type lib =
     structOf [refFree,  \<comment> \<open>the other fields\<close>
               ExternalRegistry_type lib]  \<comment> \<open>ExternalRegistry\<close>"

definition Authorization_JSONPatternMatching_DeepCopyInto :: "Library \<Rightarrow> copier" where
  "Authorization_JSONPatternMatching_DeepCopyInto lib =
     struct [assign,  \<comment> \<open>the other fields\<close>
             makeCopy]  \<comment> \<open>Rules\<close>"

definition Authorization_JSONPatternMatching_type :: "Library \<Rightarrow> tree \<Rightarrow> bool" where
  "Authorization_JSONPatternMatching_type lib =
     structOf [refFree,  \<comment> \<open>the other fields\<close>
               elementsOf refFree]  \<comment> \<open>Rules\<close>"

definition Authorization_KubernetesAuthz_DeepCopyInto :: "Library \<Rightarrow> copier" where
  "Authorization_KubernetesAuthz_DeepCopyInto lib =
     struct [assign,  \<comment> \<open>the other fields\<close>
             assign,  \<comment> \<open>User\<close>
             makeCopy,  \<comment> \<open>Groups\<close>
             newCopy assign]  \<comment> \<open>ResourceAttributes\<close>"

definition Authorization_KubernetesAuthz_type :: "Library \<Rightarrow> tree \<Rightarrow> bool" where
  "Authorization_KubernetesAuthz_type lib =
     structOf [refFree,  \<comment> \<open>the other fields\<close>
               refFree,  \<comment> \<open>User\<close>
               elementsOf refFree,  \<comment> \<open>Groups\<close>
               pointerTo refFree]  \<comment> \<open>ResourceAttributes\<close>"

definition Authorization_Authzed_DeepCopyInto :: "Library \<Rightarrow> copier" where
  "Authorization_Authzed_DeepCopyInto lib =
     struct [assign,  \<comment> \<open>the other fields\<close>
             newCopy assign,  \<comment> \<open>SharedSecret\<close>
             newCopy assign,  \<comment> \<open>Subject\<close>
             newCopy assign,  \<comment> \<open>Resource\<close>
             assign]  \<comment> \<open>Permission\<close>"

definition Authorization_Authzed_type :: "Library \<Rightarrow> tree \<Rightarrow> bool" where
  "Authorization_Authzed_type lib =
     structOf [refFree,  \<comment> \<open>the other fields\<close>
               pointerTo refFree,  \<comment> \<open>SharedSecret\<close>
               pointerTo refFree,  \<comment> \<open>Subject\<close>
               pointerTo refFree,  \<comment> \<open>Resource\<close>
               refFree]  \<comment> \<open>Permission\<close>"

definition Authorization_DeepCopyInto :: "Library \<Rightarrow> copier" where
  "Authorization_DeepCopyInto lib =
     struct [assign,  \<comment> \<open>the other fields\<close>
             makeCopy,  \<comment> \<open>Conditions\<close>
             newCopy assign,  \<comment> \<open>Cache\<close>
             newCopy (Authorization_OPA_DeepCopyInto lib),  \<comment> \<open>OPA\<close>
             newCopy (Authorization_JSONPatternMatching_DeepCopyInto lib),  \<comment> \<open>JSON\<close>
             newCopy (Authorization_KubernetesAuthz_DeepCopyInto lib),  \<comment> \<open>KubernetesAuthz\<close>
             newCopy (Authorization_Authzed_DeepCopyInto lib)]  \<comment> \<open>Authzed\<close>"

definition Authorization_type :: "Library \<Rightarrow> tree \<Rightarrow> bool" where
  "Authorization_type lib =
     structOf [refFree,  \<comment> \<open>the other fields\<close>
               elementsOf refFree,  \<comment> \<open>Conditions\<close>
               pointerTo refFree,  \<comment> \<open>Cache\<close>
               pointerTo (Authorization_OPA_type lib),  \<comment> \<open>OPA\<close>
               pointerTo (Authorization_JSONPatternMatching_type lib),  \<comment> \<open>JSON\<close>
               pointerTo (Authorization_KubernetesAuthz_type lib),  \<comment> \<open>KubernetesAuthz\<close>
               pointerTo (Authorization_Authzed_type lib)]  \<comment> \<open>Authzed\<close>"

definition Response_Wristband_DeepCopyInto :: "Library \<Rightarrow> copier" where
  "Response_Wristband_DeepCopyInto lib =
     struct [assign,  \<comment> \<open>the other fields\<close>
             makeEach (JsonProperty_DeepCopyInto lib),  \<comment> \<open>CustomClaims\<close>
             newCopy assign,  \<comment> \<open>TokenDuration\<close>
             makeEach (newCopy assign)]  \<comment> \<open>SigningKeyRefs\<close>"

definition Response_Wristband_type :: "Library \<Rightarrow> tree \<Rightarrow> bool" where
  "Response_Wristband_type lib =
     structOf [refFree,  \<comment> \<open>the other fields\<close>
               elementsOf (JsonProperty_type lib),  \<comment> \<open>CustomClaims\<close>
               pointerTo refFree,  \<comment> \<open>TokenDuration\<close>
               elementsOf (pointerTo refFree)]  \<comment> \<open>SigningKeyRefs\<close>"

definition Response_DynamicJSON_DeepCopyInto :: "Library \<Rightarrow> copier" where
  "Response_DynamicJSON_DeepCopyInto lib =
     struct [assign,  \<comment> \<open>the other fields\<close>
             makeEach (JsonProperty_DeepCopyInto lib)]  \<comment> \<open>Properties\<close>"

definition Response_DynamicJSON_type :: "Library \<Rightarrow> tree \<Rightarrow> bool" where
  "Response_DynamicJSON_type lib =
     structOf [refFree,  \<comment> \<open>the other fields\<close>
               elementsOf (JsonProperty_type lib)]  \<comment> \<open>Properties\<close>"

definition Response_DeepCopyInto :: "Library \<Rightarrow> copier" where
  "Response_DeepCopyInto lib =
     struct [assign,  \<comment> \<open>the other fields\<close>
             makeCopy,  \<comment> \<open>Conditions\<close>
             newCopy assign,  \<comment> \<open>Cache\<close>
             newCopy (Response_Wristband_DeepCopyInto lib),  \<comment> \<open>Wristband\<close>
             newCopy (Response_DynamicJSON_DeepCopyInto lib),  \<comment> \<open>JSON\<close>
             newCopy assign]  \<comment> \<open>Plain\<close>"

definition Response_type :: "Library \<Rightarrow> tree \<Rightarrow> bool" where
  "Response_type lib =
     structOf [refFree,  \<comment> \<open>the other fields\<close>
               elementsOf refFree,  \<comment> \<open>Conditions\<close>
               pointerTo refFree,  \<comment> \<open>Cache\<close>
               pointerTo (Response_Wristband_type lib),  \<comment> \<open>Wristband\<close>
               pointerTo (Response_DynamicJSON_type lib),  \<comment> \<open>JSON\<close>
               pointerTo refFree]  \<comment> \<open>Plain\<close>"

definition Callback_DeepCopyInto :: "Library \<Rightarrow> copier" where
  "Callback_DeepCopyInto lib =
     struct [assign,  \<comment> \<open>the other fields\<close>
             makeCopy,  \<comment> \<open>Conditions\<close>
             newCopy (Metadata_GenericHTTP_DeepCopyInto lib)]  \<comment> \<open>HTTP\<close>"

definition Callback_type :: "Library \<Rightarrow> tree \<Rightarrow> bool" where
  "Callback_type lib =
     structOf [refFree,  \<comment> \<open>the other fields\<close>
               elementsOf refFree,  \<comment> \<open>Conditions\<close>
               pointerTo (Metadata_GenericHTTP_type lib)]  \<comment> \<open>HTTP\<close>"

definition DenyWithSpec_DeepCopyInto :: "Library \<Rightarrow> copier" where
  "DenyWithSpec_DeepCopyInto lib =
     struct [assign,  \<comment> \<open>the other fields\<close>
             newCopy assign,  \<comment> \<open>Message\<close>
             makeEach (JsonProperty_DeepCopyInto lib),  \<comment> \<open>Headers\<close>
             newCopy assign]  \<comment> \<open>Body\<close>"

definition DenyWithSpec_type :: "Library \<Rightarrow> tree \<Rightarrow> bool" where
  "DenyWithSpec_type lib =
     structOf [refFree,  \<comment> \<open>the other fields\<close>
               pointerTo refFree,  \<comment> \<open>Message\<close>
               elementsOf (JsonProperty_type lib),  \<comment> \<open>Headers\<close>
               pointerTo refFree]  \<comment> \<open>Body\<close>"

definition DenyWith_DeepCopyInto :: "Library \<Rightarrow> copier" where
  "DenyWith_DeepCopyInto lib =
     struct [assign,  \<comment> \<open>the other fields\<close>
             newCopy (DenyWithSpec_DeepCopyInto lib),  \<comment> \<open>Unauthenticated\<close>
             newCopy (DenyWithSpec_DeepCopyInto lib)]  \<comment> \<open>Unauthorized\<close>"

definition DenyWith_type :: "Library \<Rightarrow> tree \<Rightarrow> bool" where
  "DenyWith_type lib =
     structOf [refFree,  \<comment> \<open>the other fields\<close>
               pointerTo (DenyWithSpec_type lib),  \<comment> \<open>Unauthenticated\<close>
               pointerTo (DenyWithSpec_type lib)]  \<comment> \<open>Unauthorized\<close>"

definition AuthConfigSpec_DeepCopyInto :: "Library \<Rightarrow> copier" where
  "AuthConfigSpec_DeepCopyInto lib =
     struct [assign,  \<comment> \<open>the other fields\<close>
             makeCopy,  \<comment> \<open>Hosts\<close>
             makeMap makeCopy,  \<comment> \<open>Patterns\<close>
             makeCopy,  \<comment> \<open>Conditions\<close>
             makeEach (newCopy (Identity_DeepCopyInto lib)),  \<comment> \<open>Identity\<close>
             makeEach (newCopy (Metadata_DeepCopyInto lib)),  \<comment> \<open>Metadata\<close>
             makeEach (newCopy (Authorization_DeepCopyInto lib)),  \<comment> \<open>Authorization\<close>
             makeEach (newCopy (Response_DeepCopyInto lib)),  \<comment> \<open>Response\<close>
             makeEach (newCopy (Callback_DeepCopyInto lib)),  \<comment> \<open>Callbacks\<close>
             newCopy (DenyWith_DeepCopyInto lib)]  \<comment> \<open>DenyWith\<close>"

definition AuthConfigSpec_type :: "Library \<Rightarrow> tree \<Rightarrow> bool" where
  "AuthConfigSpec_type lib =
     structOf [refFree,  \<comment> \<open>the other fields\<close>
               elementsOf refFree,  \<comment> \<open>Hosts\<close>
               entriesOf (elementsOf refFree),  \<comment> \<open>Patterns\<close>
               elementsOf refFree,  \<comment> \<open>Conditions\<close>
               elementsOf (pointerTo (Identity_type lib)),  \<comment> \<open>Identity\<close>
               elementsOf (pointerTo (Metadata_type lib)),  \<comment> \<open>Metadata\<close>
               elementsOf (pointerTo (Authorization_type lib)),  \<comment> \<open>Authorization\<close>
               elementsOf (pointerTo (Response_type lib)),  \<comment> \<open>Response\<close>
               elementsOf (pointerTo (Callback_type lib)),  \<comment> \<open>Callbacks\<close>
               pointerTo (DenyWith_type lib)]  \<comment> \<open>DenyWith\<close>"

definition Condition_DeepCopyInto :: "Library \<Rightarrow> copier" where
  "Condition_DeepCopyInto lib =
     struct [assign,  \<comment> \<open>the other fields\<close>
             Time_DeepCopyInto lib,  \<comment> \<open>LastTransitionTime\<close>
             newCopy (Time_DeepCopyInto lib)]  \<comment> \<open>LastUpdatedTime\<close>"

definition Condition_type :: "Library \<Rightarrow> tree \<Rightarrow> bool" where
  "Condition_type lib =
     structOf [refFree,  \<comment> \<open>the other fields\<close>
               Time_type lib,  \<comment> \<open>LastTransitionTime\<close>
               pointerTo (Time_type lib)]  \<comment> \<open>LastUpdatedTime\<close>"

definition Summary_DeepCopyInto :: "Library \<Rightarrow> copier" where
  "Summary_DeepCopyInto lib =
     struct [assign,  \<comment> \<open>the other fields\<close>
             makeCopy]  \<comment> \<open>HostsReady\<close>"

definition Summary_type :: "Library \<Rightarrow> tree \<Rightarrow> bool" where
  "Summary_type lib =
     structOf [refFree,  \<comment> \<open>the other fields\<close>
               elementsOf refFree]  \<comment> \<open>HostsReady\<close>"

definition AuthConfigStatus_DeepCopyInto :: "Library \<Rightarrow> copier" where
  "AuthConfigStatus_DeepCopyInto lib =
     struct [assign,  \<comment> \<open>the other fields\<close>
             makeEach (Condition_DeepCopyInto lib),  \<comment> \<open>Conditions\<close>
             Summary_DeepCopyInto lib]  \<comment> \<open>Summary\<close>"

definition AuthConfigStatus_type :: "Library \<Rightarrow> tree \<Rightarrow> bool" where
  "AuthConfigStatus_type lib =
     structOf [refFree,  \<comment> \<open>the other fields\<close>
               elementsOf (Condition_type lib),  \<comment> \<open>Conditions\<close>
               Summary_type lib]  \<comment> \<open>Summary\<close>"

definition AuthConfig_DeepCopyInto :: "Library \<Rightarrow> copier" where
  "AuthConfig_DeepCopyInto lib =
     struct [assign,  \<comment> \<open>TypeMeta\<close>
             ObjectMeta_DeepCopyInto lib,  \<comment> \<open>ObjectMeta\<close>
             AuthConfigSpec_DeepCopyInto lib,  \<comment> \<open>Spec\<close>
             AuthConfigStatus_DeepCopyInto lib]  \<comment> \<open>Status\<close>"

definition AuthConfig_type :: "Library \<Rightarrow> tree \<Rightarrow> bool" where
  "AuthConfig_type lib =
     structOf [refFree,  \<comment> \<open>TypeMeta\<close>
               ObjectMeta_type lib,  \<comment> \<open>ObjectMeta\<close>
               AuthConfigSpec_type lib,  \<comment> \<open>Spec\<close>
               AuthConfigStatus_type lib]  \<comment> \<open>Status\<close>"

text \<open>
  \<open>DeepCopy\<close>: nil for a nil receiver, else a new object filled by \<open>DeepCopyInto\<close>.
\<close>

definition AuthConfigSpec_DeepCopy :: "Library \<Rightarrow> copier" where
  "AuthConfigSpec_DeepCopy lib = newCopy (AuthConfigSpec_DeepCopyInto lib)"

definition AuthConfig_DeepCopy :: "Library \<Rightarrow> copier" where
  "AuthConfig_DeepCopy lib = newCopy (AuthConfig_DeepCopyInto lib)"

text \<open>
  The copy \<open>v'\<close> in the store \<open>h'\<close> is isolated from the original \<open>v\<close> of the store \<open>h\<close>: it
  denotes the same tree through cells allocated by the copy alone; whatever is done to
  cells allocated by the copy, the original denotes its tree as before; and whatever is
  done to the cells of the original, the copy denotes its tree as before.
\<close>

definition isolated :: "Heap \<Rightarrow> val \<Rightarrow> tree \<Rightarrow> Heap \<times> val \<Rightarrow> bool" where
  "isolated h v t result =
     (case result of
        (h', v') \<Rightarrow>
          denotesIn {next_free h..<next_free h'} h' v' t \<and>
          (\<forall>h''. (\<forall>a. a < next_free h \<longrightarrow> cells h'' a = cells h' a)
                 \<longrightarrow> denotesIn {..<next_free h} h'' v t) \<and>
          (\<forall>h''. (\<forall>a. next_free h \<le> a \<and> a < next_free h' \<longrightarrow> cells h'' a = cells h' a)
                 \<longrightarrow> denotesIn {next_free h..<next_free h'} h'' v' t))"

text \<open>
  An object in a store: its hosts at address 0, one identity at address 1, the slice of
  identities at address 2 and the object itself at address 3; library values are scalars
  here, copied by assignment.
\<close>

definition scalarLibrary :: Library where
  "scalarLibrary =
     \<lparr>ObjectMeta_DeepCopyInto = assign, ObjectMeta_type = refFree,
      RawExtension_DeepCopyInto = assign, RawExtension_type = refFree,
      LabelSelector_DeepCopyInto = assign, LabelSelector_type = refFree,
      Time_DeepCopyInto = assign, Time_type = refFree\<rparr>"

definition storedObject :: Heap where
  "storedObject =
     \<lparr>cells =
        [0 \<mapsto> Elements [Atom ''a.com''],
         1 \<mapsto> Pointee (Struct [Atom ''anonymous'', NilRef, NilRef, Atom ''Bearer'', NilRef,
                                 NilRef, NilRef, NilRef, NilRef, NilRef, NilRef, NilRef]),
         2 \<mapsto> Elements [Ref 1],
         3 \<mapsto> Pointee (Struct
                [Atom ''AuthConfig'', Atom ''blue/configB'',
                 Struct [Atom [], Ref 0, NilRef, NilRef, Ref 2, NilRef, NilRef, NilRef, NilRef,
                         NilRef],
                 Struct [Atom [], NilRef, Struct [Atom [], NilRef]]])],
      next_free = 4\<rparr>"

definition storedTree :: tree where
  "storedTree =
     TPointee (TStruct
       [TAtom ''AuthConfig'', TAtom ''blue/configB'',
        TStruct [TAtom [], TElements [TAtom ''a.com''], TNil, TNil,
                 TElements [TPointee (TStruct [TAtom ''anonymous'', TNil, TNil, TAtom ''Bearer'',
                                               TNil, TNil, TNil, TNil, TNil, TNil, TNil, TNil])],
                 TNil, TNil, TNil, TNil, TNil],
        TStruct [TAtom [], TNil, TStruct [TAtom [], TNil]]])"

section \<open>Properties of buildJSONPatternExpressions\<close>

lemma appendExpressions_map: "appendExpressions acc es = acc @ map toRule es"
  by (induction es arbitrary: acc) (simp_all add: toRule_def)

lemma buildLoop_expand: "buildLoop patterns acc rules = acc @ expandRules patterns rules"
  by (induction rules arbitrary: acc)
     (simp_all add: expandRules_def expandRule_def appendExpressions_map split: option.split)

text \<open>
  C6. Building the matching rules of any pattern-rule list against any table of named
  patterns yields, in the order of the rules, all the expressions of the named pattern for
  a rule whose name is in the table and the single inline expression for every other rule.
\<close>

theorem buildJSONPatternExpressions_expands:
  "buildJSONPatternExpressions patterns rules = expandRules patterns rules"
  by (simp add: buildJSONPatternExpressions_def buildLoop_expand)

section \<open>Properties of the OIDC evaluator\<close>

lemma getProvider_failed: "getProvider oidc force (Inl err) = (provider oidc, oidc)"
  by (simp add: getProvider_def)

lemma getProvider_not_forced:
  "provider oidc = Some p \<Longrightarrow> getProvider oidc False discovery = (Some p, oidc)"
  by (simp add: getProvider_def)

lemma refreshTicks_lastGood:
  "provider oidc = Some p \<Longrightarrow> provider (refreshTicks oidc ds) = Some (lastGood p ds)"
proof (induction ds arbitrary: oidc p)
  case Nil
  then show ?case by simp
next
  case (Cons d ds)
  show ?case
  proof (cases d)
    case (Inl err)
    with Cons show ?thesis by (simp add: getProvider_def)
  next
    case (Inr p')
    have "provider (snd (getProvider oidc True (Inr p'))) = Some p'"
      by (simp add: getProvider_def)
    from Cons.IH [OF this] Inr show ?thesis by simp
  qed
qed

lemma verifyToken_with_provider:
  "provider oidc = Some p \<Longrightarrow>
     verifyToken verify oidc accessToken discovery = (verify p accessToken, oidc)"
  by (simp add: verifyToken_def getProvider_not_forced split: sum.split)

text \<open>
  C10. A failed discovery leaves the evaluator as it was, whether forced or not. Hence an
  evaluator holding a provider still holds one after any run of refresh ticks, namely the
  last good one, and verifying a token then is the library's verification against that
  provider: the error of a missing configuration is not produced by the evaluator.
\<close>

theorem getProvider_never_discards:
  "snd (getProvider oidc force (Inl err)) = oidc \<and>
   (provider oidc = Some p \<longrightarrow>
      provider (snd (getProvider oidc force discovery)) \<noteq> None \<and>
      provider (refreshTicks oidc ds) = Some (lastGood p ds) \<and>
      verifyToken verify (refreshTicks oidc ds) accessToken discovery
        = (verify (lastGood p ds) accessToken, refreshTicks oidc ds))"
proof -
  have kept: "snd (getProvider oidc force (Inl err)) = oidc"
    by (simp add: getProvider_failed)
  have step: "provider oidc = Some p \<Longrightarrow> provider (snd (getProvider oidc force discovery)) \<noteq> None"
    by (simp add: getProvider_def split: sum.split)
  have run: "provider oidc = Some p \<Longrightarrow> provider (refreshTicks oidc ds) = Some (lastGood p ds)"
    by (rule refreshTicks_lastGood)
  from kept step run show ?thesis
    by (simp add: verifyToken_with_provider)
qed

theorem getProvider_never_discards_witness:
  "provider (refreshTicks
      \<lparr>oidc_AuthCredentials = \<lparr>cred_KeySelector = ''Bearer'', cred_In = ''authorization_header''\<rparr>,
       oidc_Endpoint = ''https://idp.test'',
       provider = Some \<lparr>issuer = ''https://idp.test'', rawClaims = None\<rparr>,
       refresher = None\<rparr>
      [Inl ''connection refused'', Inl ''timeout''])
   = Some \<lparr>issuer = ''https://idp.test'', rawClaims = None\<rparr>"
  using getProvider_never_discards
    [of "\<lparr>oidc_AuthCredentials = \<lparr>cred_KeySelector = ''Bearer'', cred_In = ''authorization_header''\<rparr>,
         oidc_Endpoint = ''https://idp.test'',
         provider = Some \<lparr>issuer = ''https://idp.test'', rawClaims = None\<rparr>,
         refresher = None\<rparr>"
        False "''x''" "\<lparr>issuer = ''https://idp.test'', rawClaims = None\<rparr>"
        "Inl ''x''" "[Inl ''connection refused'', Inl ''timeout'']"]
  by (simp add: getProvider_def)

lemma NewOIDC_refresher:
  "refresher (fst (NewOIDC endpoint creds discovery (worker, err) c)) = worker"
  by (simp add: NewOIDC_def configureProviderRefresh_def StartWorker_def split: option.split)

lemma NewOIDC_running:
  "running (snd (NewOIDC endpoint creds discovery (Some w, err) c)) = worker_id w # running c"
  by (simp add: NewOIDC_def configureProviderRefresh_def StartWorker_def)

text \<open>
  C8. Cleaning an evaluator without a refresher returns nil and changes nothing; cleaning
  one with a refresher stops that worker. In particular the worker that the construction
  started (and that is running after it) is no longer running after \<open>Clean\<close>, and an
  evaluator constructed without a worker is cleaned with a nil result.
\<close>

theorem OIDC_Clean_stops_refresher:
  "(refresher oidc = None \<longrightarrow> OIDC_Clean oidc c = (None, c)) \<and>
   (refresher oidc = Some w \<longrightarrow>
      OIDC_Clean oidc c = Worker_Stop w c \<and>
      worker_id w \<notin> set (running (snd (OIDC_Clean oidc c)))) \<and>
   worker_id w \<in> set (running (snd (NewOIDC endpoint creds discovery (Some w, err) c))) \<and>
   worker_id w \<notin> set (running (snd (OIDC_Clean
       (fst (NewOIDC endpoint creds discovery (Some w, err) c))
       (snd (NewOIDC endpoint creds discovery (Some w, err) c))))) \<and>
   fst (OIDC_Clean (fst (NewOIDC endpoint creds discovery (None, err) c)) c') = None"
  by (simp add: OIDC_Clean_def Worker_Stop_def NewOIDC_refresher NewOIDC_running)

theorem OIDC_Clean_stops_refresher_witness:
  "OIDC_Clean
     \<lparr>oidc_AuthCredentials = \<lparr>cred_KeySelector = ''Bearer'', cred_In = ''authorization_header''\<rparr>,
      oidc_Endpoint = ''https://idp.test'', provider = None,
      refresher = Some \<lparr>worker_id = 7\<rparr>\<rparr>
     \<lparr>running = [3, 7]\<rparr>
   = (None, \<lparr>running = [3]\<rparr>)
   \<and> OIDC_Clean
     \<lparr>oidc_AuthCredentials = \<lparr>cred_KeySelector = ''Bearer'', cred_In = ''authorization_header''\<rparr>,
      oidc_Endpoint = ''https://idp.test'', provider = None,
      refresher = None\<rparr>
     \<lparr>running = [3, 7]\<rparr>
   = (None, \<lparr>running = [3, 7]\<rparr>)"
  using OIDC_Clean_stops_refresher
    [of "\<lparr>oidc_AuthCredentials = \<lparr>cred_KeySelector = ''Bearer'', cred_In = ''authorization_header''\<rparr>,
         oidc_Endpoint = ''https://idp.test'', provider = None,
         refresher = Some \<lparr>worker_id = 7\<rparr>\<rparr>"
        "\<lparr>running = [3, 7]\<rparr>" "\<lparr>worker_id = 7\<rparr>"]
    OIDC_Clean_stops_refresher
    [of "\<lparr>oidc_AuthCredentials = \<lparr>cred_KeySelector = ''Bearer'', cred_In = ''authorization_header''\<rparr>,
         oidc_Endpoint = ''https://idp.test'', provider = None,
         refresher = None\<rparr>"
        "\<lparr>running = [3, 7]\<rparr>"]
  by (simp add: Worker_Stop_def)

lemma OIDC_Call_returns:
  "\<exists>r. fst (OIDC_Call credentials checkContext verify tokenClaims oidc discovery) = Returns r"
  by (simp add: OIDC_Call_def decodeAndVerifyToken_def split: sum.split option.split prod.split)

text \<open>
  C2. \<open>GetURL\<close> on an evaluator whose discovery never succeeded (nil provider, and the
  discovery attempted by the call fails too) does not return an error: it panics on the nil
  provider. On a provider whose discovery document has no entry of the requested name it
  panics in the type assertion.
\<close>

theorem GetURL_panics:
  "fst (GetURL Inr
      \<lparr>oidc_AuthCredentials = \<lparr>cred_KeySelector = ''Bearer'', cred_In = ''authorization_header''\<rparr>,
       oidc_Endpoint = ''https://idp.test'', provider = None, refresher = None\<rparr>
      ''userinfo_endpoint'' (Inl ''connection refused''))
   = Panics NilPointerDereference
   \<and> fst (GetURL Inr
      \<lparr>oidc_AuthCredentials = \<lparr>cred_KeySelector = ''Bearer'', cred_In = ''authorization_header''\<rparr>,
       oidc_Endpoint = ''https://idp.test'',
       provider = Some \<lparr>issuer = ''https://idp.test'',
                         rawClaims = Some [''issuer'' \<mapsto> JString ''https://idp.test'']\<rparr>,
       refresher = None\<rparr>
      ''userinfo_endpoint'' (Inl ''unused''))
   = Panics InterfaceConversion"
  by (simp add: GetURL_def getProvider_def Provider_Claims_def)

section \<open>Properties of the API key evaluator\<close>

lemma parseSecrets_key:
  "parseSecrets m items k = Some s \<Longrightarrow>
     m k = Some s \<or> (s \<in> set items \<and> dataString s apiKeySelector = k)"
proof (induction items arbitrary: m)
  case Nil
  then show ?case by simp
next
  case (Cons a items)
  let ?m = "m(dataString a apiKeySelector \<mapsto> a)"
  from Cons.prems have "parseSecrets ?m items k = Some s" by simp
  from Cons.IH [OF this]
  have "?m k = Some s \<or> (s \<in> set items \<and> dataString s apiKeySelector = k)" .
  then show ?case by (auto split: if_splits)
qed

lemma parseSecrets_keeps:
  "m k \<noteq> None \<Longrightarrow> parseSecrets m items k \<noteq> None"
  by (induction items arbitrary: m) auto

lemma parseSecrets_found:
  "s \<in> set items \<Longrightarrow> parseSecrets m items (dataString s apiKeySelector) \<noteq> None"
proof (induction items arbitrary: m)
  case Nil
  then show ?case by simp
next
  case (Cons a items)
  show ?case
  proof (cases "s \<in> set items")
    case True
    from Cons.IH [OF this] show ?thesis by simp
  next
    case False
    with Cons.prems have "a = s" by simp
    then show ?thesis by (simp add: parseSecrets_keeps)
  qed
qed

text \<open>
  C3 (as stated) fails on a request from which no credential can be extracted: \<open>Call\<close>
  hands back the error of the extraction, not the error of an invalid key.
\<close>

theorem APIKey_Call_extraction_error:
  "APIKey_Call (\<lambda>request. if request = ''APIKEY k1'' then Inr ''k1'' else Inl ''credential not found'')
     (NewApiKeyIdentity ''friends'' Map.empty ''ns1''
        \<lparr>cred_KeySelector = ''APIKEY'', cred_In = ''authorization_header''\<rparr>
        (\<lambda>opts. Inr [\<lparr>secret_Namespace = ''ns1'', secret_Name = ''key-1'',
                       secret_Data = [''api_key'' \<mapsto> ''k1'']\<rparr>]))
     []
   = Inl ''credential not found''
   \<and> ''credential not found'' \<noteq> invalidApiKeyMsg"
  by (simp add: APIKey_Call_def invalidApiKeyMsg_def)

text \<open>
  C3 (amended). When a credential is extracted from the request: if a secret is stored
  under it, \<open>Call\<close> returns that secret, and it is a fetched secret whose \<open>api_key\<close> datum
  is the credential; otherwise \<open>Call\<close> returns the error of an invalid key. For every
  fetched secret the credential equal to its \<open>api_key\<close> datum is accepted, with a fetched
  secret of that datum as the result. An evaluator whose fetch failed at construction
  rejects every extracted credential as invalid. When the extraction fails, \<open>Call\<close>
  returns the error of the extraction.
\<close>

theorem APIKey_Call_correct:
  "(getCredentialsFromReq request = Inr reqKey \<longrightarrow>
      (authorizedCredentials apiKey reqKey = Some secret \<longrightarrow>
         APIKey_Call getCredentialsFromReq apiKey request = Inr secret) \<and>
      (authorizedCredentials apiKey reqKey = None \<longrightarrow>
         APIKey_Call getCredentialsFromReq apiKey request = Inl invalidApiKeyMsg) \<and>
      (authorizedCredentials (NewApiKeyIdentity name labels ns cred (\<lambda>opts. Inr items)) reqKey
           = Some secret \<longrightarrow>
         secret \<in> set items \<and> dataString secret apiKeySelector = reqKey) \<and>
      (secret \<in> set items \<and> dataString secret apiKeySelector = reqKey \<longrightarrow>
         (\<exists>stored. APIKey_Call getCredentialsFromReq
              (NewApiKeyIdentity name labels ns cred (\<lambda>opts. Inr items)) request = Inr stored
            \<and> stored \<in> set items \<and> dataString stored apiKeySelector = reqKey)) \<and>
      APIKey_Call getCredentialsFromReq
         (NewApiKeyIdentity name labels ns cred (\<lambda>opts. Inl err)) request
        = Inl invalidApiKeyMsg) \<and>
   (getCredentialsFromReq request = Inl err \<longrightarrow>
      APIKey_Call getCredentialsFromReq apiKey request = Inl err)"
proof -
  let ?built = "NewApiKeyIdentity name labels ns cred (\<lambda>opts. Inr items)"
  have map_built: "authorizedCredentials ?built = parseSecrets Map.empty items"
    by (simp add: NewApiKeyIdentity_def GetCredentialsFromCluster_def)
  have stored_key: "authorizedCredentials ?built reqKey = Some secret \<Longrightarrow>
      secret \<in> set items \<and> dataString secret apiKeySelector = reqKey"
    using parseSecrets_key [of Map.empty items reqKey secret] by (simp add: map_built)
  have found: "\<exists>stored. APIKey_Call getCredentialsFromReq ?built request = Inr stored
            \<and> stored \<in> set items \<and> dataString stored apiKeySelector = reqKey"
    if ext: "getCredentialsFromReq request = Inr reqKey"
      and mem: "secret \<in> set items" and key: "dataString secret apiKeySelector = reqKey"
  proof -
    from parseSecrets_found [OF mem, of Map.empty] key
    obtain s' where s': "parseSecrets Map.empty items reqKey = Some s'" by auto
    from parseSecrets_key [OF s'] have "s' \<in> set items \<and> dataString s' apiKeySelector = reqKey"
      by simp
    with s' ext show ?thesis by (simp add: APIKey_Call_def map_built)
  qed
  have failed: "authorizedCredentials (NewApiKeyIdentity name labels ns cred (\<lambda>opts. Inl err)) = Map.empty"
    by (simp add: NewApiKeyIdentity_def GetCredentialsFromCluster_def)
  have a: "getCredentialsFromReq request = Inr reqKey \<Longrightarrow>
      authorizedCredentials apiKey reqKey = Some secret \<Longrightarrow>
         APIKey_Call getCredentialsFromReq apiKey request = Inr secret"
    by (simp add: APIKey_Call_def)
  have b: "getCredentialsFromReq request = Inr reqKey \<Longrightarrow>
      authorizedCredentials apiKey reqKey = None \<Longrightarrow>
         APIKey_Call getCredentialsFromReq apiKey request = Inl invalidApiKeyMsg"
    by (simp add: APIKey_Call_def)
  have c: "getCredentialsFromReq request = Inr reqKey \<Longrightarrow>
      APIKey_Call getCredentialsFromReq
         (NewApiKeyIdentity name labels ns cred (\<lambda>opts. Inl err)) request
        = Inl invalidApiKeyMsg"
    by (simp add: APIKey_Call_def failed)
  have d: "getCredentialsFromReq request = Inl err \<Longrightarrow>
      APIKey_Call getCredentialsFromReq apiKey request = Inl err"
    by (simp add: APIKey_Call_def)
  from a b c d stored_key found show ?thesis by blast
qed

theorem APIKey_Call_correct_witness:
  "APIKey_Call (\<lambda>request. if request = ''APIKEY k1'' then Inr ''k1'' else Inl ''credential not found'')
     (NewApiKeyIdentity ''friends'' Map.empty ''ns1''
        \<lparr>cred_KeySelector = ''APIKEY'', cred_In = ''authorization_header''\<rparr>
        (\<lambda>opts. Inr [\<lparr>secret_Namespace = ''ns1'', secret_Name = ''key-1'',
                       secret_Data = [''api_key'' \<mapsto> ''k1'']\<rparr>]))
     ''APIKEY k1''
   = Inr \<lparr>secret_Namespace = ''ns1'', secret_Name = ''key-1'',
          secret_Data = [''api_key'' \<mapsto> ''k1'']\<rparr>"
  using APIKey_Call_correct
    [of "\<lambda>request. if request = ''APIKEY k1'' then Inr ''k1'' else Inl ''credential not found''"
        "''APIKEY k1''" "''k1''"
        "NewApiKeyIdentity ''friends'' Map.empty ''ns1''
           \<lparr>cred_KeySelector = ''APIKEY'', cred_In = ''authorization_header''\<rparr>
           (\<lambda>opts. Inr [\<lparr>secret_Namespace = ''ns1'', secret_Name = ''key-1'',
                          secret_Data = [''api_key'' \<mapsto> ''k1'']\<rparr>])"
        "\<lparr>secret_Namespace = ''ns1'', secret_Name = ''key-1'',
          secret_Data = [''api_key'' \<mapsto> ''k1'']\<rparr>"]
  by (simp add: NewApiKeyIdentity_def GetCredentialsFromCluster_def dataString_def
        apiKeySelector_def)

section \<open>Properties of the reconciler\<close>

lemma translateIdentity_apiKey:
  "id_Type identity = IdentityApiKey labelSelectors allNamespaces \<Longrightarrow>
     \<exists>cfg. translateIdentity r authConfig identity = Inr cfg \<and>
       ic_Evaluator cfg = Some (EvAPIKey (NewApiKeyIdentity (id_Name identity) labelSelectors
          (apiKeyNamespace r authConfig allNamespaces)
          (NewAuthCredential (KeySelector (id_Credentials identity)) (In (id_Credentials identity)))
          (client_List r)))"
  by (simp add: translateIdentity_def)

lemma NewApiKeyIdentity_fields:
  "apikey_Namespace (NewApiKeyIdentity name ls ns cred k8sList) = ns"
  "apikey_LabelSelectors (NewApiKeyIdentity name ls ns cred k8sList) = ls"
  by (simp_all add: NewApiKeyIdentity_def GetCredentialsFromCluster_def split: sum.split)

text \<open>
  C7. For an API key identity of an object in a (non-empty) namespace, the translation
  builds an evaluator whose cluster lookup carries no namespace restriction if and only if
  the identity sets \<open>AllNamespaces\<close> and the reconciler's \<open>Namespace\<close> is empty; otherwise
  the lookup is restricted to the namespace of the object. The credentials of the
  evaluator are what the cluster lists under exactly these options.
\<close>

theorem apiKey_lookup_scope:
  assumes "ac_Namespace authConfig \<noteq> []"
    and "id_Type identity = IdentityApiKey labelSelectors allNamespaces"
  shows "\<exists>cfg apiKey.
     translateIdentity r authConfig identity = Inr cfg \<and>
     ic_Evaluator cfg = Some (EvAPIKey apiKey) \<and>
     listOptions apiKey =
       (if allNamespaces \<and> ClusterWide r then [MatchingLabels labelSelectors]
        else [MatchingLabels labelSelectors, InNamespace (ac_Namespace authConfig)]) \<and>
     ((\<forall>namespace. InNamespace namespace \<notin> set (listOptions apiKey))
        \<longleftrightarrow> (allNamespaces \<and> r_Namespace r = [])) \<and>
     authorizedCredentials apiKey =
       (case client_List r (listOptions apiKey) of
          Inl err \<Rightarrow> Map.empty
        | Inr items \<Rightarrow> parseSecrets Map.empty items)"
proof -
  let ?apiKey = "NewApiKeyIdentity (id_Name identity) labelSelectors
          (apiKeyNamespace r authConfig allNamespaces)
          (NewAuthCredential (KeySelector (id_Credentials identity)) (In (id_Credentials identity)))
          (client_List r)"
  from translateIdentity_apiKey [OF assms(2)]
  obtain cfg where cfg: "translateIdentity r authConfig identity = Inr cfg"
    "ic_Evaluator cfg = Some (EvAPIKey ?apiKey)" by blast
  have opts: "listOptions ?apiKey =
       (if allNamespaces \<and> ClusterWide r then [MatchingLabels labelSelectors]
        else [MatchingLabels labelSelectors, InNamespace (ac_Namespace authConfig)])"
    using assms(1) by (simp add: listOptions_def NewApiKeyIdentity_fields apiKeyNamespace_def)
  have scope: "(\<forall>namespace. InNamespace namespace \<notin> set (listOptions ?apiKey))
        \<longleftrightarrow> (allNamespaces \<and> r_Namespace r = [])"
    by (auto simp: opts ClusterWide_def)
  have creds: "authorizedCredentials ?apiKey =
       (case client_List r (listOptions ?apiKey) of
          Inl err \<Rightarrow> Map.empty
        | Inr items \<Rightarrow> parseSecrets Map.empty items)"
    by (simp add: NewApiKeyIdentity_def GetCredentialsFromCluster_def listOptions_def split: sum.split)
  from cfg opts scope creds show ?thesis by blast
qed

theorem apiKey_lookup_scope_witness:
  "\<exists>cfg apiKey.
     translateIdentity exampleReconciler (exampleAuthConfig (IdentityApiKey Map.empty True))
       (exampleIdentity (IdentityApiKey Map.empty True)) = Inr cfg \<and>
     ic_Evaluator cfg = Some (EvAPIKey apiKey) \<and>
     listOptions apiKey = [MatchingLabels Map.empty]"
  using apiKey_lookup_scope
    [of "exampleAuthConfig (IdentityApiKey Map.empty True)"
        "exampleIdentity (IdentityApiKey Map.empty True)" Map.empty True exampleReconciler]
  by (simp add: exampleAuthConfig_def exampleIdentity_def exampleReconciler_def ClusterWide_def)
     blast

lemma cleanAndLog_cache: "cache (cleanAndLog r cacheId w) = cache w"
  by (simp add: cleanAndLog_def cleanConfigs_def APIConfig_Clean_def cleanEvaluators_def logInfo_def
        split: list.split option.split)

lemma cleanAndLog_cleaned_none:
  "Cache_FindKeys (cache w) cacheId = [] \<Longrightarrow> cleaned (cleanAndLog r cacheId w) = cleaned w"
  by (simp add: cleanAndLog_def cleanConfigs_def)

lemma cleanAndLog_cleaned:
  "Cache_FindKeys (cache w) cacheId = host # others \<Longrightarrow>
   Cache_Get (cache w) host = Some displaced \<Longrightarrow>
   cleaned (cleanAndLog r cacheId w) = cleaned w @ evaluators displaced"
  by (simp add: cleanAndLog_def cleanConfigs_def APIConfig_Clean_def cleanEvaluators_def logInfo_def
        split: option.split)

lemma bindHosts_cleaned:
  "cleaned (snd (bindHosts req cacheId m order w)) = cleaned w"
  by (induction req cacheId m order w rule: bindHosts.induct)
     (simp_all add: logInfo_def split: option.split prod.split)

lemma Cache_Delete_cleaned:
  "Cache_FindKeys (cache w) cacheId = host # others \<Longrightarrow>
   Cache_Get (cache w) host = Some displaced \<Longrightarrow>
   cleaned (Cache_Delete cacheId w) = cleaned w @ evaluators displaced"
  by (simp add: Cache_Delete_def Cache_FindKeys_def cleanEvaluators_def Let_def)

lemma Reconcile_cleaned:
  "Watched r authConfig \<Longrightarrow>
   cleaned (snd (Reconcile r req (GetFound authConfig) order w))
     = cleaned (cleanAndLog r (Request_String req) w)"
  by (auto simp: Reconcile_def Let_def bindHosts_cleaned split: sum.split)

lemma count_list_distinct:
  "distinct xs \<Longrightarrow> x \<in> set xs \<Longrightarrow> count_list xs x = 1"
  by (induction xs) (auto simp: count_list_0_iff)

text \<open>
  From an index in which all the hosts of the \<open>configId\<close> (one or several) hold the same
  configuration, a reconciliation that replaces it adds to the record of \<open>Clean\<close>
  invocations exactly the evaluators of that configuration, each at its place once; with
  distinct evaluators the count of every one of them grows by one.
\<close>

lemma Reconcile_cleans_once:
  assumes "Watched r authConfig"
    and "Cache_FindKeys (cache w) (Request_String req) = host # others"
    and "list_all (\<lambda>h. Cache_Get (cache w) h = Some displaced) (host # others)"
  shows "cleaned (snd (Reconcile r req (GetFound authConfig) order w))
           = cleaned w @ evaluators displaced \<and>
     (distinct (evaluators displaced) \<longrightarrow>
        (\<forall>e \<in> set (evaluators displaced).
           count_list (cleaned (snd (Reconcile r req (GetFound authConfig) order w))) e
             = count_list (cleaned w) e + 1))"
proof -
  from assms(3) have first: "Cache_Get (cache w) host = Some displaced" by simp
  have log: "cleaned (snd (Reconcile r req (GetFound authConfig) order w))
               = cleaned w @ evaluators displaced"
    using Reconcile_cleaned [OF assms(1)] cleanAndLog_cleaned [OF assms(2) first] by simp
  have once: "count_list (evaluators displaced) e = 1"
    if "distinct (evaluators displaced)" "e \<in> set (evaluators displaced)" for e
    using that by (simp add: count_list_distinct)
  from log once show ?thesis by simp
qed

lemma Reconcile_cleans_once_example:
  "cleaned (snd (Reconcile exampleReconciler exampleRequest
       (GetFound (exampleAuthConfig IdentityAnonymous)) [''a.com'', ''foo.com''] blueOwnsTwo))
     = evaluators configA"
  using Reconcile_cleans_once
    [of exampleReconciler "exampleAuthConfig IdentityAnonymous"
        blueOwnsTwo exampleRequest
        "''a.com''" "[''b.com'']" configA "[''a.com'', ''foo.com'']"]
  by (simp add: blueOwnsTwo_def exampleRequest_def Request_String_def Cache_FindKeys_def
        Cache_Get_def exampleReconciler_def)

text \<open>
  When the object is gone or no longer watched, the configuration of the \<open>configId\<close> is
  cleaned by \<open>cleanConfigs\<close> and then again by the \<open>Delete\<close> of the index, which evicts it:
  its evaluators enter the record of \<open>Clean\<close> invocations twice.
\<close>

lemma Reconcile_deletion_cleans_twice:
  assumes "got = GetNotFound \<or> (got = GetFound authConfig \<and> \<not> Watched r authConfig)"
    and "Cache_FindKeys (cache w) (Request_String req) = host # others"
    and "Cache_Get (cache w) host = Some displaced"
  shows "cleaned (snd (Reconcile r req got order w))
           = cleaned w @ evaluators displaced @ evaluators displaced"
proof -
  let ?w1 = "cleanAndLog r (Request_String req) w"
  have run: "snd (Reconcile r req got order w)
               = logInfo ''resource reconciled'' (Cache_Delete (Request_String req) ?w1)"
    using assms(1) by (auto simp: Reconcile_def deleted_def Let_def)
  have keys: "Cache_FindKeys (cache ?w1) (Request_String req) = host # others"
    using assms(2) unfolding cleanAndLog_cache .
  have held: "Cache_Get (cache ?w1) host = Some displaced"
    using assms(3) unfolding cleanAndLog_cache .
  show ?thesis
    unfolding run
    using Cache_Delete_cleaned [OF keys held] cleanAndLog_cleaned [OF assms(2,3)]
    by (simp add: logInfo_def)
qed

lemma Reconcile_deletion_example:
  "cleaned (snd (Reconcile exampleReconciler exampleRequest GetNotFound [] blueOwnsTwo))
     = evaluators configA @ evaluators configA \<and>
   Cache_FindKeys (cache (snd (Reconcile exampleReconciler exampleRequest GetNotFound []
     blueOwnsTwo))) ''blue/configB'' = []"
  by (simp add: Reconcile_def deleted_def Let_def blueOwnsTwo_def exampleRequest_def
        Request_String_def Cache_FindKeys_def Cache_Get_def Cache_Delete_def unbind_def
        cleanEvaluators_def cleanAndLog_def cleanConfigs_def APIConfig_Clean_def logInfo_def
        exampleReconciler_def split: option.split)

text \<open>
  C5. The claim fails once an object has dropped a host. After the second version has
  replaced the first at \<open>b.com\<close> (the first one, cleaned, stays bound to \<open>a.com\<close>), the
  reconciliation of the third version displaces the second at \<open>b.com\<close> but cleans the
  configuration found at the first host of the \<open>configId\<close>, \<open>a.com\<close>: the evaluators of the
  first version are cleaned a second time, those of the displaced second version never.
\<close>

theorem Reconcile_cleans_stale_configuration:
  "(case threeVersions of (w1, w2, w3) \<Rightarrow>
      boundIdentities w1 ''b.com'' = Some [''v1''] \<and>
      map evaluatorName (cleaned w1) = [] \<and>
      boundIdentities w2 ''b.com'' = Some [''v2''] \<and>
      map evaluatorName (cleaned w2) = [''v1''] \<and>
      boundIdentities w3 ''b.com'' = Some [''v3''] \<and>
      map evaluatorName (cleaned w3) = [''v1'', ''v1''])"
  by (simp add: Reconcile_def translateAuthConfig_def exampleVersion_def
     translateIdentity_def exampleReconciler_def NewAuthCredential_def exampleRequest_def
     buildJSONPatternExpressions_def Let_def emptyIndex_def cleanAndLog_def cleanConfigs_def
     Cache_FindKeys_def Cache_FindId_def Cache_Get_def Cache_Set_def install_def
     Request_String_def namespaceOf_def logInfo_def APIConfig_Clean_def cleanEvaluators_def evaluators_def
     boundIdentities_def evaluatorName_def threeVersions_def)

lemma translateEach_fails:
  "x \<in> set xs \<Longrightarrow> isl (f x) \<Longrightarrow> isl (translateEach f xs)"
  by (induction xs) (auto split: sum.split)

lemma translateEach_map:
  "translateEach f xs = Inr ys \<Longrightarrow> list_all2 (\<lambda>x y. f x = Inr y) xs ys"
  by (induction xs arbitrary: ys) (auto split: sum.splits)

lemma translateIdentity_name:
  "translateIdentity r authConfig identity = Inr cfg \<Longrightarrow> ic_Name cfg = id_Name identity"
  by (auto simp: translateIdentity_def Let_def split: IdentityType.splits sum.splits option.splits)

lemma translated_names:
  assumes "translateEach (translateIdentity r authConfig) ids = Inr cfgs"
  shows "map ic_Name cfgs = map id_Name ids"
proof -
  from translateEach_map [OF assms]
  have "list_all2 (\<lambda>x y. translateIdentity r authConfig x = Inr y) ids cfgs" .
  then show ?thesis
    by (induction rule: list_all2_induct) (simp_all add: translateIdentity_name)
qed

lemma findIdentityConfigByName_missing:
  "name \<notin> set (map ic_Name cfgs) \<Longrightarrow> isl (findIdentityConfigByName cfgs name)"
  by (induction cfgs) auto

lemma translateIdentity_secret:
  "name \<in> set (identitySecrets identity) \<Longrightarrow> isl (client_Get r (ac_Namespace authConfig) name)
     \<Longrightarrow> isl (translateIdentity r authConfig identity)"
  by (auto simp: translateIdentity_def identitySecrets_def Let_def
        split: IdentityType.splits sum.splits)

lemma translateMetadata_secret:
  assumes "name \<in> set (metadataSecrets metadata)"
    and "isl (client_Get r (ac_Namespace authConfig) name)"
  shows "isl (translateMetadata r authConfig cfgs metadata)"
proof (cases "md_Type metadata")
  case (MetadataUma endpoint credentialsName)
  with assms show ?thesis
    by (auto simp: translateMetadata_def metadataSecrets_def split: sum.split)
next
  case (MetadataGenericHTTP genericHttp)
  show ?thesis
  proof (cases "gh_SharedSecret genericHttp")
    case None
    with MetadataGenericHTTP assms show ?thesis by (simp add: metadataSecrets_def)
  next
    case (Some sharedSecretRef)
    with MetadataGenericHTTP assms show ?thesis
      by (auto simp: translateMetadata_def metadataSecrets_def Let_def split: sum.split)
  qed
qed (use assms in \<open>simp_all add: metadataSecrets_def\<close>)

lemma translateAuthorization_secret:
  assumes "name \<in> set (authorizationSecrets authorization)"
    and "isl (client_Get r (ac_Namespace authConfig) name)"
  shows "isl (translateAuthorization r authConfig index authorization)"
proof (cases "az_Type authorization")
  case (AuthorizationOPA opa)
  show ?thesis
  proof (cases "er_SharedSecret (opa_ExternalRegistry opa)")
    case None
    with AuthorizationOPA assms show ?thesis by (simp add: authorizationSecrets_def)
  next
    case (Some sharedSecretRef)
    with AuthorizationOPA assms show ?thesis
      by (auto simp: translateAuthorization_def authorizationSecrets_def Let_def split: sum.split)
  qed
qed (use assms in \<open>simp_all add: authorizationSecrets_def\<close>)

lemma signingKeyOf_secret:
  "isl (client_Get r (ac_Namespace authConfig) (sk_Name ref)) \<Longrightarrow> isl (signingKeyOf r authConfig ref)"
  by (auto simp: signingKeyOf_def split: sum.splits)

lemma translateResponse_secret:
  assumes "name \<in> set (responseSecrets response)"
    and "isl (client_Get r (ac_Namespace authConfig) name)"
  shows "isl (translateResponse r authConfig response)"
proof (cases "rs_Type response")
  case (ResponseWristband wristband)
  with assms(1) obtain ref where ref: "ref \<in> set (wb_SigningKeyRefs wristband)" "sk_Name ref = name"
    by (auto simp: responseSecrets_def)
  from assms(2) ref have "isl (signingKeyOf r authConfig ref)"
    by (simp add: signingKeyOf_secret)
  with ref have "isl (translateEach (signingKeyOf r authConfig) (wb_SigningKeyRefs wristband))"
    by (simp add: translateEach_fails)
  with ResponseWristband show ?thesis
    by (auto simp: translateResponse_def Let_def split: sum.splits)
qed (use assms in \<open>simp_all add: responseSecrets_def\<close>)


lemma translateIdentity_unknown:
  "id_Type identity = IdentityTypeUnknown \<Longrightarrow> isl (translateIdentity r authConfig identity)"
  by (simp add: translateIdentity_def)

lemma translateMetadata_unknown:
  "md_Type metadata = MetadataTypeUnknown \<Longrightarrow> isl (translateMetadata r authConfig cfgs metadata)"
  by (simp add: translateMetadata_def)

lemma translateAuthorization_unknown:
  "az_Type authorization = AuthorizationTypeUnknown \<Longrightarrow>
     isl (translateAuthorization r authConfig index authorization)"
  by (simp add: translateAuthorization_def)

lemma translateResponse_unknown:
  "rs_Type response = ResponseTypeUnknown \<Longrightarrow> isl (translateResponse r authConfig response)"
  by (simp add: translateResponse_def)

lemma translateMetadata_missing:
  "md_Type metadata = MetadataUserinfo identitySource \<Longrightarrow>
   identitySource \<notin> set (map ic_Name cfgs) \<Longrightarrow>
     isl (translateMetadata r authConfig cfgs metadata)"
  using findIdentityConfigByName_missing [of identitySource cfgs]
  by (auto simp: translateMetadata_def split: sum.split)

lemma fails_identity:
  "isl (translateEach (translateIdentity r authConfig) (spec_Identity authConfig)) \<Longrightarrow>
     isl (translateAuthConfig r authConfig)"
  by (auto simp: translateAuthConfig_def split: sum.split)

lemma fails_metadata:
  "(\<And>cfgs. translateEach (translateIdentity r authConfig) (spec_Identity authConfig) = Inr cfgs \<Longrightarrow>
      isl (translateEach (translateMetadata r authConfig cfgs) (spec_Metadata authConfig))) \<Longrightarrow>
     isl (translateAuthConfig r authConfig)"
  by (auto simp: translateAuthConfig_def split: sum.split)

lemma fails_authorization:
  "isl (translateEach (\<lambda>(index, authorization).
          translateAuthorization r authConfig index authorization)
        (enumerate 0 (spec_Authorization authConfig))) \<Longrightarrow>
     isl (translateAuthConfig r authConfig)"
  by (auto simp: translateAuthConfig_def split: sum.split)

lemma fails_response:
  "isl (translateEach (translateResponse r authConfig) (spec_Response authConfig)) \<Longrightarrow>
     isl (translateAuthConfig r authConfig)"
  by (auto simp: translateAuthConfig_def Let_def split: sum.split)

lemma enumerate_member: "x \<in> set xs \<Longrightarrow> \<exists>i. (i, x) \<in> set (enumerate n xs)"
  by (metis enumerate_eq_zip in_set_conv_nth in_set_zip length_upt fst_conv snd_conv
        add.commute add_diff_cancel_left')

lemma secret_fetch_fails:
  assumes "name \<in> set (referencedSecrets authConfig)"
    and "isl (client_Get r (ac_Namespace authConfig) name)"
  shows "isl (translateAuthConfig r authConfig)"
proof -
  from assms(1) consider
      identity where "identity \<in> set (spec_Identity authConfig)" "name \<in> set (identitySecrets identity)"
    | metadata where "metadata \<in> set (spec_Metadata authConfig)" "name \<in> set (metadataSecrets metadata)"
    | authorization where "authorization \<in> set (spec_Authorization authConfig)"
        "name \<in> set (authorizationSecrets authorization)"
    | response where "response \<in> set (spec_Response authConfig)" "name \<in> set (responseSecrets response)"
    by (auto simp: referencedSecrets_def)
  then show ?thesis
  proof cases
    case 1
    with assms(2) show ?thesis
      by (intro fails_identity translateEach_fails [of identity]) (simp_all add: translateIdentity_secret)
  next
    case 2
    with assms(2) show ?thesis
      by (intro fails_metadata translateEach_fails [of metadata]) (simp_all add: translateMetadata_secret)
  next
    case 3
    from enumerate_member [OF 3(1)] obtain i
      where "(i, authorization) \<in> set (enumerate 0 (spec_Authorization authConfig))" by blast
    with 3 assms(2) show ?thesis
      by (intro fails_authorization translateEach_fails [of "(i, authorization)"])
         (simp_all add: translateAuthorization_secret)
  next
    case 4
    with assms(2) show ?thesis
      by (intro fails_response translateEach_fails [of response]) (simp_all add: translateResponse_secret)
  qed
qed

lemma unknown_type_fails:
  assumes "hasUnknownType authConfig"
  shows "isl (translateAuthConfig r authConfig)"
proof -
  from assms consider
      identity where "identity \<in> set (spec_Identity authConfig)" "id_Type identity = IdentityTypeUnknown"
    | metadata where "metadata \<in> set (spec_Metadata authConfig)" "md_Type metadata = MetadataTypeUnknown"
    | authorization where "authorization \<in> set (spec_Authorization authConfig)"
        "az_Type authorization = AuthorizationTypeUnknown"
    | response where "response \<in> set (spec_Response authConfig)" "rs_Type response = ResponseTypeUnknown"
    by (auto simp: hasUnknownType_def list_ex_iff)
  then show ?thesis
  proof cases
    case 1
    then show ?thesis
      by (intro fails_identity translateEach_fails [of identity]) (simp_all add: translateIdentity_unknown)
  next
    case 2
    then show ?thesis
      by (intro fails_metadata translateEach_fails [of metadata]) (simp_all add: translateMetadata_unknown)
  next
    case 3
    from enumerate_member [OF 3(1)] obtain i
      where "(i, authorization) \<in> set (enumerate 0 (spec_Authorization authConfig))" by blast
    with 3 show ?thesis
      by (intro fails_authorization translateEach_fails [of "(i, authorization)"])
         (simp_all add: translateAuthorization_unknown)
  next
    case 4
    then show ?thesis
      by (intro fails_response translateEach_fails [of response]) (simp_all add: translateResponse_unknown)
  qed
qed

lemma missing_identity_fails:
  assumes "hasMissingIdentitySource authConfig"
  shows "isl (translateAuthConfig r authConfig)"
proof -
  from assms obtain metadata
    where mem: "metadata \<in> set (spec_Metadata authConfig)"
      and src: "case md_Type metadata of
                  MetadataUserinfo identitySource \<Rightarrow>
                    identitySource \<notin> set (map id_Name (spec_Identity authConfig))
                | _ \<Rightarrow> False"
    by (auto simp: hasMissingIdentitySource_def list_ex_iff)
  from src obtain identitySource
    where "md_Type metadata = MetadataUserinfo identitySource"
      and "identitySource \<notin> set (map id_Name (spec_Identity authConfig))"
    by (cases "md_Type metadata") simp_all
  with mem have md: "metadata \<in> set (spec_Metadata authConfig)"
      "md_Type metadata = MetadataUserinfo identitySource"
      "identitySource \<notin> set (map id_Name (spec_Identity authConfig))"
    by simp_all
  show ?thesis
  proof (rule fails_metadata)
    fix cfgs
    assume "translateEach (translateIdentity r authConfig) (spec_Identity authConfig) = Inr cfgs"
    from translated_names [OF this] md(3)
    have "identitySource \<notin> set (map ic_Name cfgs)" by simp
    from translateMetadata_missing [OF md(2) this]
    have "isl (translateMetadata r authConfig cfgs metadata)" .
    with md(1) show "isl (translateEach (translateMetadata r authConfig cfgs) (spec_Metadata authConfig))"
      by (rule translateEach_fails)
  qed
qed

text \<open>
  C4. For a watched object, the translation fails when a referenced secret cannot be
  fetched, when an evaluator is of an unknown type, or when a user-info metadata names a
  missing identity; and whenever the translation fails, \<open>Reconcile\<close> returns the error
  of the translation and leaves the host index as it was: no binding is installed and
  every prior binding stays.
\<close>

theorem Reconcile_translation_failure:
  assumes "Watched r authConfig"
  shows "((name \<in> set (referencedSecrets authConfig) \<and>
            isl (client_Get r (ac_Namespace authConfig) name)) \<or>
          hasUnknownType authConfig \<or> hasMissingIdentitySource authConfig
            \<longrightarrow> isl (translateAuthConfig r authConfig)) \<and>
         (translateAuthConfig r authConfig = Inl err \<longrightarrow>
            fst (Reconcile r req (GetFound authConfig) order w) = Some err \<and>
            cache (snd (Reconcile r req (GetFound authConfig) order w)) = cache w)"
proof -
  have causes: "(name \<in> set (referencedSecrets authConfig) \<and>
            isl (client_Get r (ac_Namespace authConfig) name)) \<or>
          hasUnknownType authConfig \<or> hasMissingIdentitySource authConfig
            \<Longrightarrow> isl (translateAuthConfig r authConfig)"
    using secret_fetch_fails unknown_type_fails missing_identity_fails by blast
  have result: "translateAuthConfig r authConfig = Inl err \<Longrightarrow>
            fst (Reconcile r req (GetFound authConfig) order w) = Some err \<and>
            cache (snd (Reconcile r req (GetFound authConfig) order w)) = cache w"
    using assms by (simp add: Reconcile_def Let_def cleanAndLog_cache)
  from causes result show ?thesis by blast
qed

theorem Reconcile_translation_failure_witness:
  "fst (Reconcile exampleReconciler exampleRequest
      (GetFound (exampleAuthConfig IdentityTypeUnknown)) [''a.com'', ''foo.com''] redOwnsFoo)
     = Some ''unknown identity type'' \<and>
   cache (snd (Reconcile exampleReconciler exampleRequest
      (GetFound (exampleAuthConfig IdentityTypeUnknown)) [''a.com'', ''foo.com''] redOwnsFoo))
     = cache redOwnsFoo"
  using Reconcile_translation_failure
    [of exampleReconciler "exampleAuthConfig IdentityTypeUnknown" "''none''"
        "''unknown identity type''" exampleRequest "[''a.com'', ''foo.com'']" redOwnsFoo]
  by (simp add: exampleReconciler_def exampleAuthConfig_def exampleIdentity_def
        translateAuthConfig_def translateIdentity_def hasUnknownType_def)

lemma namespaceOf_Request_String:
  "CHR ''/'' \<notin> set (req_Namespace req) \<Longrightarrow> namespaceOf (Request_String req) = req_Namespace req"
proof -
  assume "CHR ''/'' \<notin> set (req_Namespace req)"
  then have "\<And>c. c \<in> set (req_Namespace req) \<Longrightarrow> c \<noteq> CHR ''/''" by blast
  then have "takeWhile (\<lambda>c. c \<noteq> CHR ''/'') (req_Namespace req @ ''/'' @ req_Name req)
               = req_Namespace req @ takeWhile (\<lambda>c. c \<noteq> CHR ''/'') (''/'' @ req_Name req)"
    by (rule takeWhile_append2)
  then show ?thesis by (simp add: namespaceOf_def Request_String_def)
qed

lemma Cache_Set_allowed:
  assumes "\<not> collides c req host" and "CHR ''/'' \<notin> set (req_Namespace req)"
  shows "Cache_Set (Request_String req) host apiConfig True c
           = (None, install (Request_String req) host apiConfig c)"
  using assms
  by (auto simp: Cache_Set_def collides_def Cache_FindId_def namespaceOf_Request_String
        split: option.split)

lemma install_entries:
  "entries (install configId host apiConfig c) = (entries c)(host \<mapsto> (configId, apiConfig))"
  by (simp add: install_def Let_def)

lemma collides_install:
  assumes "\<not> collides c req host" and "CHR ''/'' \<notin> set (req_Namespace req)"
  shows "collides (install (Request_String req) host apiConfig c) req = collides c req"
proof
  fix h
  show "collides (install (Request_String req) host apiConfig c) req h = collides c req h"
    using assms
    by (cases "h = host")
       (simp_all add: collides_def Cache_FindId_def install_entries namespaceOf_Request_String)
qed

lemma bindHosts_collision:
  assumes "CHR ''/'' \<notin> set (req_Namespace req)"
    and "set order \<subseteq> dom m"
  shows "fst (bindHosts req (Request_String req) m order w) = None \<and>
         entries (cache (snd (bindHosts req (Request_String req) m order w))) =
           (\<lambda>h. if h \<in> set (reached (cache w) req order)
                then map_option (Pair (Request_String req)) (m h)
                else entries (cache w) h) \<and>
         logged (snd (bindHosts req (Request_String req) m order w)) =
           logged w @ [if list_ex (collides (cache w) req) order
                       then ''host already taken in another namespace''
                       else ''resource reconciled'']"
  using assms(2)
proof (induction order arbitrary: w)
  case Nil
  show ?case by (simp add: reached_def logInfo_def)
next
  case (Cons host rest)
  from Cons.prems obtain apiConfig where m: "m host = Some apiConfig" by auto
  from Cons.prems have rest: "set rest \<subseteq> dom m" by simp
  show ?case
  proof (cases "collides (cache w) req host")
    case True
    then show ?thesis
      using m by (auto simp: reached_def collides_def logInfo_def split: option.splits)
  next
    case False
    let ?c = "install (Request_String req) host apiConfig (cache w)"
    let ?w = "w\<lparr>cache := ?c\<rparr>"
    from Cache_Set_allowed [OF False assms(1)]
    have set: "Cache_Set (Request_String req) host apiConfig True (cache w) = (None, ?c)" .
    have step: "bindHosts req (Request_String req) m (host # rest) w
                  = bindHosts req (Request_String req) m rest ?w"
      using False m set by (simp add: collides_def split: option.splits)
    have same: "reached ?c req rest = reached (cache w) req rest"
      by (simp add: reached_def collides_install [OF False assms(1)])
    have wc: "cache ?w = ?c" "logged ?w = logged w" by simp_all
    have same': "list_ex (collides ?c req) rest = list_ex (collides (cache w) req) rest"
      by (simp add: collides_install [OF False assms(1)])
    from Cons.IH [OF rest, of ?w]
    have ih: "fst (bindHosts req (Request_String req) m rest ?w) = None"
      "entries (cache (snd (bindHosts req (Request_String req) m rest ?w))) =
           (\<lambda>h. if h \<in> set (reached (cache w) req rest)
                then map_option (Pair (Request_String req)) (m h)
                else entries ?c h)"
      "logged (snd (bindHosts req (Request_String req) m rest ?w)) =
           logged w @ [if list_ex (collides (cache w) req) rest
                       then ''host already taken in another namespace''
                       else ''resource reconciled'']"
      unfolding wc same same' by blast+
    have l: "list_ex (collides (cache w) req) (host # rest) = list_ex (collides (cache w) req) rest"
      using False by simp
    have r: "reached (cache w) req (host # rest) = host # reached (cache w) req rest"
      using False by (simp add: reached_def)
    show ?thesis
      unfolding step r l using ih m by (auto simp: install_entries)
  qed
qed


lemma dom_fold_hosts:
  "dom (fold (\<lambda>host config. config(host \<mapsto> v)) hosts m) = dom m \<union> set hosts"
  by (induction hosts arbitrary: m) auto

lemma translateAuthConfig_dom:
  "translateAuthConfig r authConfig = Inr m \<Longrightarrow> dom m = set (spec_Hosts authConfig)"
proof -
  assume "translateAuthConfig r authConfig = Inr m"
  then have "\<exists>v. m = fold (\<lambda>host config. config(host \<mapsto> v)) (spec_Hosts authConfig) Map.empty"
    unfolding translateAuthConfig_def Let_def by (simp split: sum.splits) blast
  then obtain v
    where "m = fold (\<lambda>host config. config(host \<mapsto> v)) (spec_Hosts authConfig) Map.empty"
    by blast
  then have "dom m = dom (Map.empty :: string \<rightharpoonup> APIConfig) \<union> set (spec_Hosts authConfig)"
    by (simp only: dom_fold_hosts)
  then show ?thesis by simp
qed

text \<open>
  For a watched object whose translation succeeds, reconciled with any order of iteration
  over its hosts, and with a host bound to a \<open>configId\<close> of another namespace: \<open>Reconcile\<close>
  returns nil, the binding of that host is as before, the last message logged is the one
  of the collision, and the index changes exactly at the hosts reached before the first
  colliding one, which are bound to the reconciled object.
\<close>

lemma Reconcile_host_collision:
  assumes "Watched r authConfig"
    and "translateAuthConfig r authConfig = Inr authConfigByHost"
    and "set order = set (spec_Hosts authConfig)"
    and "CHR ''/'' \<notin> set (req_Namespace req)"
    and "host \<in> set (spec_Hosts authConfig)"
    and "Cache_FindId (cache w) host = Some boundId"
    and "namespaceOf boundId \<noteq> req_Namespace req"
  shows "fst (Reconcile r req (GetFound authConfig) order w) = None \<and>
         entries (cache (snd (Reconcile r req (GetFound authConfig) order w))) host
           = entries (cache w) host \<and>
         (\<forall>h. entries (cache (snd (Reconcile r req (GetFound authConfig) order w))) h =
            (if h \<in> set (reached (cache w) req order)
             then map_option (Pair (Request_String req)) (authConfigByHost h)
             else entries (cache w) h)) \<and>
         last (logged (snd (Reconcile r req (GetFound authConfig) order w)))
           = ''host already taken in another namespace''"
proof -
  let ?w1 = "cleanAndLog r (Request_String req) w"
  have run: "Reconcile r req (GetFound authConfig) order w
               = bindHosts req (Request_String req) authConfigByHost order ?w1"
    using assms(1,2) by (simp add: Reconcile_def Let_def)
  from translateAuthConfig_dom [OF assms(2)] assms(3)
  have keys: "set order \<subseteq> dom authConfigByHost" by simp
  have hit: "collides (cache w) req host"
    using assms(6,7) by (simp add: collides_def)
  with assms(3,5) have some: "list_ex (collides (cache w) req) order"
    by (auto simp: list_ex_iff)
  from hit have out: "host \<notin> set (reached (cache w) req order)"
    by (auto simp: reached_def dest: set_takeWhileD)
  from bindHosts_collision [OF assms(4) keys, of ?w1]
  have res: "fst (bindHosts req (Request_String req) authConfigByHost order ?w1) = None"
    "entries (cache (snd (bindHosts req (Request_String req) authConfigByHost order ?w1))) =
           (\<lambda>h. if h \<in> set (reached (cache w) req order)
                then map_option (Pair (Request_String req)) (authConfigByHost h)
                else entries (cache w) h)"
    "logged (snd (bindHosts req (Request_String req) authConfigByHost order ?w1)) =
           logged ?w1 @ [''host already taken in another namespace'']"
    using some unfolding cleanAndLog_cache by simp_all
  from res out show ?thesis unfolding run by simp
qed

lemma Reconcile_host_collision_example:
  "fst (Reconcile exampleReconciler exampleRequest
      (GetFound (exampleAuthConfig IdentityAnonymous)) [''foo.com'', ''a.com''] redOwnsFoo) = None \<and>
   entries (cache (snd (Reconcile exampleReconciler exampleRequest
      (GetFound (exampleAuthConfig IdentityAnonymous)) [''foo.com'', ''a.com''] redOwnsFoo))) ''foo.com''
     = Some (''red/configA'', configA)"
proof -
  let ?r = exampleReconciler and ?ac = "exampleAuthConfig IdentityAnonymous"
  have watched: "Watched ?r ?ac"
    by (simp add: exampleReconciler_def)
  have translated: "translateAuthConfig ?r ?ac = Inr (projr (translateAuthConfig ?r ?ac))"
    by (simp add: exampleAuthConfig_def exampleIdentity_def translateAuthConfig_def
          translateIdentity_def Let_def)
  have order: "set [''foo.com'', ''a.com''] = set (spec_Hosts ?ac)"
    by (auto simp: exampleAuthConfig_def)
  have namespace: "CHR ''/'' \<notin> set (req_Namespace exampleRequest)"
    by (simp add: exampleRequest_def)
  have host: "''foo.com'' \<in> set (spec_Hosts ?ac)"
    by (simp add: exampleAuthConfig_def)
  have bound: "Cache_FindId (cache redOwnsFoo) ''foo.com'' = Some ''red/configA''"
    by (simp add: redOwnsFoo_def Cache_FindId_def)
  have other: "namespaceOf ''red/configA'' \<noteq> req_Namespace exampleRequest"
    by (simp add: namespaceOf_def exampleRequest_def)
  have before: "entries (cache redOwnsFoo) ''foo.com'' = Some (''red/configA'', configA)"
    by (simp add: redOwnsFoo_def)
  from Reconcile_host_collision [OF watched translated order namespace host bound other]
  have "fst (Reconcile ?r exampleRequest (GetFound ?ac) [''foo.com'', ''a.com''] redOwnsFoo) = None \<and>
        entries (cache (snd (Reconcile ?r exampleRequest (GetFound ?ac) [''foo.com'', ''a.com'']
          redOwnsFoo))) ''foo.com'' = entries (cache redOwnsFoo) ''foo.com''"
    by blast
  then show ?thesis unfolding before .
qed

text \<open>
  C1. The claim fails when the loop meets a free host before the colliding one. The object
  \<open>blue/configB\<close> has the hosts \<open>a.com\<close> and \<open>foo.com\<close>, and \<open>foo.com\<close> belongs to
  \<open>red/configA\<close>. \<open>Reconcile\<close> returns nil and \<open>foo.com\<close> stays with \<open>red/configA\<close>, but
  when the map is ranged \<open>a.com\<close> first, \<open>a.com\<close> is left bound to \<open>blue/configB\<close>, which
  then has a host in the index. Ranged \<open>foo.com\<close> first, the same reconciliation binds
  nothing: what the reconciled object obtains depends on the order that Go picks.
\<close>

theorem Reconcile_collision_binds_earlier_host:
  "''foo.com'' \<in> set (spec_Hosts (exampleAuthConfig IdentityAnonymous)) \<and>
   Cache_FindId (cache redOwnsFoo) ''foo.com'' = Some ''red/configA'' \<and>
   namespaceOf ''red/configA'' \<noteq> req_Namespace exampleRequest \<and>
   fst (Reconcile exampleReconciler exampleRequest
       (GetFound (exampleAuthConfig IdentityAnonymous)) [''a.com'', ''foo.com''] redOwnsFoo) = None \<and>
   Cache_FindId (cache (snd (Reconcile exampleReconciler exampleRequest
       (GetFound (exampleAuthConfig IdentityAnonymous)) [''a.com'', ''foo.com''] redOwnsFoo))) ''foo.com''
     = Some ''red/configA'' \<and>
   Cache_FindId (cache (snd (Reconcile exampleReconciler exampleRequest
       (GetFound (exampleAuthConfig IdentityAnonymous)) [''a.com'', ''foo.com''] redOwnsFoo))) ''a.com''
     = Some ''blue/configB'' \<and>
   Cache_FindKeys (cache (snd (Reconcile exampleReconciler exampleRequest
       (GetFound (exampleAuthConfig IdentityAnonymous)) [''a.com'', ''foo.com''] redOwnsFoo)))
       (Request_String exampleRequest)
     = [''a.com''] \<and>
   Cache_FindKeys (cache (snd (Reconcile exampleReconciler exampleRequest
       (GetFound (exampleAuthConfig IdentityAnonymous)) [''foo.com'', ''a.com''] redOwnsFoo)))
       (Request_String exampleRequest)
     = []"
  by (simp add: Reconcile_def translateAuthConfig_def exampleAuthConfig_def exampleIdentity_def
     translateIdentity_def exampleReconciler_def NewAuthCredential_def exampleRequest_def
     buildJSONPatternExpressions_def Let_def redOwnsFoo_def cleanAndLog_def cleanConfigs_def
     Cache_FindKeys_def Cache_FindId_def Cache_Set_def install_def Request_String_def
     namespaceOf_def logInfo_def configA_def)

section \<open>Properties of the generated deep copies\<close>

lemma frame:
  "denotesIn S h v t \<Longrightarrow> S \<subseteq> S' \<Longrightarrow> (\<And>a. a \<in> S \<Longrightarrow> cells h' a = cells h a)
     \<Longrightarrow> denotesIn S' h' v t"
proof (induction t arbitrary: v)
  case (TAtom s)
  then show ?case by simp
next
  case TNil
  then show ?case by simp
next
  case (TStruct ts)
  from TStruct.prems(1) obtain vs where v: "v = Struct vs"
    and all: "list_all2 (\<lambda>x t. denotesIn S h x t) vs ts"
    by (cases v) simp_all
  have "list_all2 (\<lambda>x t. denotesIn S' h' x t) vs ts"
  proof (rule list.rel_mono_strong [OF all])
    fix x t assume "t \<in> set ts" "denotesIn S h x t"
    then show "denotesIn S' h' x t"
      using TStruct.prems(2,3) by (rule TStruct.IH)
  qed
  with v show ?case by simp
next
  case (TPointee t)
  from TPointee.prems(1) obtain a x where v: "v = Ref a" and a: "a \<in> S"
    and c: "cells h a = Some (Pointee x)" and x: "denotesIn S h x t"
    by (cases v) (auto split: option.splits cell.splits)
  from x TPointee.prems(2,3) have "denotesIn S' h' x t" by (rule TPointee.IH)
  moreover from a TPointee.prems(3) c have "cells h' a = Some (Pointee x)" by simp
  moreover from a TPointee.prems(2) have "a \<in> S'" by auto
  ultimately show ?case using v by simp
next
  case (TElements ts)
  from TElements.prems(1) obtain a xs where v: "v = Ref a" and a: "a \<in> S"
    and c: "cells h a = Some (Elements xs)"
    and all: "list_all2 (\<lambda>x t. denotesIn S h x t) xs ts"
    by (cases v) (auto split: option.splits cell.splits)
  have "list_all2 (\<lambda>x t. denotesIn S' h' x t) xs ts"
  proof (rule list.rel_mono_strong [OF all])
    fix x t assume "t \<in> set ts" "denotesIn S h x t"
    then show "denotesIn S' h' x t"
      using TElements.prems(2,3) by (rule TElements.IH)
  qed
  moreover from a TElements.prems(3) c have "cells h' a = Some (Elements xs)" by simp
  moreover from a TElements.prems(2) have "a \<in> S'" by auto
  ultimately show ?case using v by simp
next
  case (TEntries ks ts)
  from TEntries.prems(1) obtain a xs where v: "v = Ref a" and a: "a \<in> S"
    and c: "cells h a = Some (Entries ks xs)"
    and all: "list_all2 (\<lambda>x t. denotesIn S h x t) xs ts"
    by (cases v) (auto split: option.splits cell.splits)
  have "list_all2 (\<lambda>x t. denotesIn S' h' x t) xs ts"
  proof (rule list.rel_mono_strong [OF all])
    fix x t assume "t \<in> set ts" "denotesIn S h x t"
    then show "denotesIn S' h' x t"
      using TEntries.prems(2,3) by (rule TEntries.IH)
  qed
  moreover from a TEntries.prems(3) c have "cells h' a = Some (Entries ks xs)" by simp
  moreover from a TEntries.prems(2) have "a \<in> S'" by auto
  ultimately show ?case using v by simp
qed

lemma refFree_anywhere:
  "refFree t \<Longrightarrow> denotesIn S h v t \<Longrightarrow> denotesIn S' h' v t"
proof (induction t arbitrary: v)
  case (TStruct ts)
  from TStruct.prems(2) obtain vs where v: "v = Struct vs"
    and all: "list_all2 (\<lambda>x t. denotesIn S h x t) vs ts"
    by (cases v) simp_all
  have "list_all2 (\<lambda>x t. denotesIn S' h' x t) vs ts"
  proof (rule list.rel_mono_strong [OF all])
    fix x t assume t: "t \<in> set ts" and x: "denotesIn S h x t"
    from t TStruct.prems(1) have "refFree t" by (simp add: list_all_iff)
    with t show "denotesIn S' h' x t" using x by (rule TStruct.IH)
  qed
  with v show ?case by simp
qed simp_all

lemma frame_list:
  assumes "list_all2 (\<lambda>x t. denotesIn S h x t) vs ts" and "S \<subseteq> S'"
    and "\<And>a. a \<in> S \<Longrightarrow> cells h' a = cells h a"
  shows "list_all2 (\<lambda>x t. denotesIn S' h' x t) vs ts"
proof (rule list.rel_mono_strong [OF assms(1)])
  fix x t
  assume "denotesIn S h x t"
  then show "denotesIn S' h' x t" using assms(2,3) by (rule frame)
qed

lemma keeps_refl: "wellFormed h \<Longrightarrow> keeps h h"
  by (simp add: keeps_def)

lemma keeps_trans: "keeps h h1 \<Longrightarrow> keeps h1 h2 \<Longrightarrow> keeps h h2"
  by (auto simp: keeps_def)

lemma keeps_alloc: "wellFormed h \<Longrightarrow> keeps h (snd (alloc c h))"
  by (auto simp: keeps_def wellFormed_def alloc_def)

lemma deep_assign: "deep refFree assign"
  unfolding deep_def assign_def
proof (intro allI impI)
  fix h v t
  assume "wellFormed h" "refFree t" "denotesIn {..<next_free h} h v t"
  from this(2,3) have "denotesIn {next_free h..<next_free h} h v t"
    by (rule refFree_anywhere)
  with \<open>wellFormed h\<close> show "case (h, v) of
      (h', v') \<Rightarrow> keeps h h' \<and> denotesIn {next_free h..<next_free h'} h' v' t"
    by (simp add: keeps_refl)
qed

lemma deepD:
  assumes "deep P c" "wellFormed h" "P t" "denotesIn {..<next_free h} h v t" "c h v = (h', v')"
  shows "keeps h h'" "denotesIn {next_free h..<next_free h'} h' v' t"
proof -
  from assms(1) [unfolded deep_def, rule_format, OF assms(2,3,4)]
  have "case c h v of
      (h', v') \<Rightarrow> keeps h h' \<and> denotesIn {next_free h..<next_free h'} h' v' t" .
  with assms(5) show "keeps h h'" "denotesIn {next_free h..<next_free h'} h' v' t"
    by simp_all
qed

lemma copyFields_deep:
  assumes "list_all2 deep Ps cs"
    and "wellFormed h" and "n \<le> next_free h"
    and "list_all2 (\<lambda>P t. P t) Ps ts"
    and "list_all2 (\<lambda>x t. denotesIn {..<n} h x t) vs ts"
    and "copyFields cs h vs = (h', vs')"
  shows "keeps h h' \<and> list_all2 (\<lambda>x t. denotesIn {n..<next_free h'} h' x t) vs' ts"
  using assms
proof (induction Ps cs arbitrary: h ts vs h' vs' rule: list_all2_induct)
  case Nil
  then show ?case by (simp add: keeps_refl)
next
  case (Cons P Ps c cs)
  from Cons.prems(3) obtain t ts' where ts: "ts = t # ts'" and P: "P t"
    and Ps: "list_all2 (\<lambda>P t. P t) Ps ts'"
    by (auto simp: list_all2_Cons1)
  from Cons.prems(4) ts obtain v vs0 where vs: "vs = v # vs0"
    and v: "denotesIn {..<n} h v t"
    and vs0: "list_all2 (\<lambda>x t. denotesIn {..<n} h x t) vs0 ts'"
    by (auto simp: list_all2_Cons2)
  obtain h1 v1 where c: "c h v = (h1, v1)" by (cases "c h v")
  obtain h2 vs2 where rest: "copyFields cs h1 vs0 = (h2, vs2)" by (cases "copyFields cs h1 vs0")
  from Cons.prems(5) vs c rest have res: "h' = h2" "vs' = v1 # vs2" by simp_all
  have "denotesIn {..<next_free h} h v t"
    using v
  proof (rule frame)
    show "{..<n} \<subseteq> {..<next_free h}" using Cons.prems(2) by auto
  qed simp
  from deepD [OF Cons.hyps(1) Cons.prems(1) P this c]
  have k1: "keeps h h1" and v1: "denotesIn {next_free h..<next_free h1} h1 v1 t" .
  from k1 have wellFormed1: "wellFormed h1" and le1: "next_free h \<le> next_free h1"
    and same1: "\<And>a. a < next_free h \<Longrightarrow> cells h1 a = cells h a"
    by (simp_all add: keeps_def)
  from le1 Cons.prems(2) have n1: "n \<le> next_free h1" by simp
  have vs1: "list_all2 (\<lambda>x t. denotesIn {..<n} h1 x t) vs0 ts'"
    using vs0
  proof (rule frame_list)
    fix a assume "a \<in> {..<n}"
    with Cons.prems(2) have "a < next_free h" by simp
    then show "cells h1 a = cells h a" by (rule same1)
  qed simp
  from Cons.IH [OF wellFormed1 n1 Ps vs1 rest]
  have k2: "keeps h1 h2" and vs2: "list_all2 (\<lambda>x t. denotesIn {n..<next_free h2} h2 x t) vs2 ts'"
    by simp_all
  from k2 have same2: "\<And>a. a < next_free h1 \<Longrightarrow> cells h2 a = cells h1 a"
    and le2: "next_free h1 \<le> next_free h2"
    by (simp_all add: keeps_def)
  have "denotesIn {n..<next_free h2} h2 v1 t"
    using v1
  proof (rule frame)
    show "{next_free h..<next_free h1} \<subseteq> {n..<next_free h2}"
      using Cons.prems(2) le2 by auto
    fix a assume "a \<in> {next_free h..<next_free h1}"
    then show "cells h2 a = cells h1 a" by (simp add: same2)
  qed
  moreover from k1 k2 have "keeps h h2" by (rule keeps_trans)
  ultimately show ?case using vs2 res ts by simp
qed

lemma copyEach_copyFields:
  "copyEach c h vs = copyFields (replicate (length vs) c) h vs"
  by (induction vs arbitrary: h) (auto split: prod.split)

lemma list_all2_replicate:
  "list_all P ts \<Longrightarrow> list_all2 (\<lambda>P t. P t) (replicate (length ts) P) ts"
  by (induction ts) auto

lemma copyEach_deep:
  assumes "deep P c" and "wellFormed h" and "n \<le> next_free h" and "list_all P ts"
    and "list_all2 (\<lambda>x t. denotesIn {..<n} h x t) vs ts"
    and "copyEach c h vs = (h', vs')"
  shows "keeps h h' \<and> list_all2 (\<lambda>x t. denotesIn {n..<next_free h'} h' x t) vs' ts"
proof -
  from assms(5) have len: "length vs = length ts" by (rule list_all2_lengthD)
  have "list_all2 deep (replicate (length ts) P) (replicate (length ts) c)"
    using assms(1) by (induction ts) auto
  with len have cs: "list_all2 deep (replicate (length ts) P) (replicate (length vs) c)" by simp
  from assms(6) have "copyFields (replicate (length vs) c) h vs = (h', vs')"
    by (simp add: copyEach_copyFields)
  from copyFields_deep [OF cs assms(2,3) list_all2_replicate [OF assms(4)] assms(5) this]
  show ?thesis .
qed

lemma deepI:
  assumes "\<And>h v t h' v'. wellFormed h \<Longrightarrow> P t \<Longrightarrow> denotesIn {..<next_free h} h v t \<Longrightarrow>
      c h v = (h', v') \<Longrightarrow> keeps h h' \<and> denotesIn {next_free h..<next_free h'} h' v' t"
  shows "deep P c"
  unfolding deep_def
proof (intro allI impI)
  fix h v t
  assume a: "wellFormed h" "P t" "denotesIn {..<next_free h} h v t"
  obtain h' v' where r: "c h v = (h', v')" by (cases "c h v")
  from assms [OF a r] r
  show "case c h v of (h', v') \<Rightarrow> keeps h h' \<and> denotesIn {next_free h..<next_free h'} h' v' t"
    by simp
qed

lemma deep_struct:
  assumes "list_all2 deep Ps cs"
  shows "deep (structOf Ps) (struct cs)"
proof (rule deepI)
  fix h v t h' v'
  assume wf: "wellFormed h" and P: "structOf Ps t"
    and d: "denotesIn {..<next_free h} h v t" and r: "struct cs h v = (h', v')"
  from P obtain ts where t: "t = TStruct ts" and Ps: "list_all2 (\<lambda>P t. P t) Ps ts"
    by (cases t) simp_all
  from d t obtain vs where v: "v = Struct vs"
    and vs: "list_all2 (\<lambda>x t. denotesIn {..<next_free h} h x t) vs ts"
    by (cases v) simp_all
  obtain h1 vs1 where f: "copyFields cs h vs = (h1, vs1)" by (cases "copyFields cs h vs")
  with r v have res: "h' = h1" "v' = Struct vs1" by (simp_all add: struct_def)
  from copyFields_deep [OF assms wf order_refl Ps vs f] res t
  show "keeps h h' \<and> denotesIn {next_free h..<next_free h'} h' v' t" by simp
qed

lemma alloc_result:
  "alloc c h = (a, h') \<Longrightarrow>
     a = next_free h \<and> next_free h' = Suc (next_free h) \<and> cells h' = (cells h)(next_free h \<mapsto> c)"
  by (auto simp: alloc_def)

lemma deep_newCopy:
  assumes "deep P c"
  shows "deep (pointerTo P) (newCopy c)"
proof (rule deepI)
  fix h v t h' v'
  assume wf: "wellFormed h" and P: "pointerTo P t"
    and d: "denotesIn {..<next_free h} h v t" and r: "newCopy c h v = (h', v')"
  show "keeps h h' \<and> denotesIn {next_free h..<next_free h'} h' v' t"
  proof (cases t)
    case TNil
    with d r wf show ?thesis by (simp add: newCopy_def keeps_refl)
  next
    case (TPointee t0)
    with P have P0: "P t0" by simp
    from d TPointee obtain a x where v: "v = Ref a"
      and c: "cells h a = Some (Pointee x)" and x: "denotesIn {..<next_free h} h x t0"
      by (cases v) (auto split: option.splits cell.splits)
    obtain h1 x1 where cx: "c h x = (h1, x1)" by (cases "c h x")
    from deepD [OF assms wf P0 x cx]
    have k1: "keeps h h1" and x1: "denotesIn {next_free h..<next_free h1} h1 x1 t0" .
    obtain a' h2 where al: "alloc (Pointee x1) h1 = (a', h2)" by (cases "alloc (Pointee x1) h1")
    from r v c cx al have res: "h' = h2" "v' = Ref a'" by (simp_all add: newCopy_def)
    from alloc_result [OF al] have a': "a' = next_free h1"
      and n2: "next_free h2 = Suc (next_free h1)"
      and c2: "cells h2 = (cells h1)(next_free h1 \<mapsto> Pointee x1)" by simp_all
    from k1 have wf1: "wellFormed h1" and le1: "next_free h \<le> next_free h1"
      by (simp_all add: keeps_def)
    from keeps_alloc [OF wf1, of "Pointee x1"] al have k2: "keeps h1 h2" by simp
    have "denotesIn {next_free h..<next_free h2} h2 x1 t0"
      using x1
    proof (rule frame)
      show "{next_free h..<next_free h1} \<subseteq> {next_free h..<next_free h2}" using n2 by auto
      fix b assume "b \<in> {next_free h..<next_free h1}"
      then show "cells h2 b = cells h1 b" by (simp add: c2)
    qed
    with a' n2 c2 le1 have "denotesIn {next_free h..<next_free h2} h2 (Ref a') (TPointee t0)"
      by simp
    moreover from k1 k2 have "keeps h h2" by (rule keeps_trans)
    ultimately show ?thesis using res TPointee by simp
  qed (use P in simp_all)
qed

lemma deep_makeEach:
  assumes "deep P c"
  shows "deep (elementsOf P) (makeEach c)"
proof (rule deepI)
  fix h v t h' v'
  assume wf: "wellFormed h" and P: "elementsOf P t"
    and d: "denotesIn {..<next_free h} h v t" and r: "makeEach c h v = (h', v')"
  show "keeps h h' \<and> denotesIn {next_free h..<next_free h'} h' v' t"
  proof (cases t)
    case TNil
    with d r wf show ?thesis by (simp add: makeEach_def keeps_refl)
  next
    case (TElements ts)
    with P have Ps: "list_all P ts" by simp
    from d TElements obtain a xs where v: "v = Ref a"
      and c: "cells h a = Some (Elements xs)"
      and xs: "list_all2 (\<lambda>x t. denotesIn {..<next_free h} h x t) xs ts"
      by (cases v) (auto split: option.splits cell.splits)
    obtain h1 xs1 where cx: "copyEach c h xs = (h1, xs1)" by (cases "copyEach c h xs")
    from copyEach_deep [OF assms wf order_refl Ps xs cx]
    have k1: "keeps h h1"
      and xs1: "list_all2 (\<lambda>x t. denotesIn {next_free h..<next_free h1} h1 x t) xs1 ts"
      by simp_all
    obtain a' h2 where al: "alloc (Elements xs1) h1 = (a', h2)" by (cases "alloc (Elements xs1) h1")
    from r v c cx al have res: "h' = h2" "v' = Ref a'" by (simp_all add: makeEach_def)
    from alloc_result [OF al] have a': "a' = next_free h1"
      and n2: "next_free h2 = Suc (next_free h1)"
      and c2: "cells h2 = (cells h1)(next_free h1 \<mapsto> Elements xs1)" by simp_all
    from k1 have wf1: "wellFormed h1" and le1: "next_free h \<le> next_free h1"
      by (simp_all add: keeps_def)
    from keeps_alloc [OF wf1, of "Elements xs1"] al have k2: "keeps h1 h2" by simp
    have "list_all2 (\<lambda>x t. denotesIn {next_free h..<next_free h2} h2 x t) xs1 ts"
      using xs1
    proof (rule frame_list)
      show "{next_free h..<next_free h1} \<subseteq> {next_free h..<next_free h2}" using n2 by auto
      fix b assume "b \<in> {next_free h..<next_free h1}"
      then show "cells h2 b = cells h1 b" by (simp add: c2)
    qed
    with a' n2 c2 le1 have "denotesIn {next_free h..<next_free h2} h2 (Ref a') (TElements ts)"
      by simp
    moreover from k1 k2 have "keeps h h2" by (rule keeps_trans)
    ultimately show ?thesis using res TElements by simp
  qed (use P in simp_all)
qed

lemma deep_makeCopy: "deep (elementsOf refFree) makeCopy"
  unfolding makeCopy_def by (rule deep_makeEach) (rule deep_assign)

lemma deep_makeMap:
  assumes "deep P c"
  shows "deep (entriesOf P) (makeMap c)"
proof (rule deepI)
  fix h v t h' v'
  assume wf: "wellFormed h" and P: "entriesOf P t"
    and d: "denotesIn {..<next_free h} h v t" and r: "makeMap c h v = (h', v')"
  show "keeps h h' \<and> denotesIn {next_free h..<next_free h'} h' v' t"
  proof (cases t)
    case TNil
    with d r wf show ?thesis by (simp add: makeMap_def keeps_refl)
  next
    case (TEntries ks ts)
    with P have Ps: "list_all P ts" by simp
    from d TEntries obtain a xs where v: "v = Ref a"
      and c: "cells h a = Some (Entries ks xs)"
      and xs: "list_all2 (\<lambda>x t. denotesIn {..<next_free h} h x t) xs ts"
      by (cases v) (auto split: option.splits cell.splits)
    obtain h1 xs1 where cx: "copyEach c h xs = (h1, xs1)" by (cases "copyEach c h xs")
    from copyEach_deep [OF assms wf order_refl Ps xs cx]
    have k1: "keeps h h1"
      and xs1: "list_all2 (\<lambda>x t. denotesIn {next_free h..<next_free h1} h1 x t) xs1 ts"
      by simp_all
    obtain a' h2 where al: "alloc (Entries ks xs1) h1 = (a', h2)"
      by (cases "alloc (Entries ks xs1) h1")
    from r v c cx al have res: "h' = h2" "v' = Ref a'" by (simp_all add: makeMap_def)
    from alloc_result [OF al] have a': "a' = next_free h1"
      and n2: "next_free h2 = Suc (next_free h1)"
      and c2: "cells h2 = (cells h1)(next_free h1 \<mapsto> Entries ks xs1)" by simp_all
    from k1 have wf1: "wellFormed h1" and le1: "next_free h \<le> next_free h1"
      by (simp_all add: keeps_def)
    from keeps_alloc [OF wf1, of "Entries ks xs1"] al have k2: "keeps h1 h2" by simp
    have "list_all2 (\<lambda>x t. denotesIn {next_free h..<next_free h2} h2 x t) xs1 ts"
      using xs1
    proof (rule frame_list)
      show "{next_free h..<next_free h1} \<subseteq> {next_free h..<next_free h2}" using n2 by auto
      fix b assume "b \<in> {next_free h..<next_free h1}"
      then show "cells h2 b = cells h1 b" by (simp add: c2)
    qed
    with a' n2 c2 le1 have "denotesIn {next_free h..<next_free h2} h2 (Ref a') (TEntries ks ts)"
      by simp
    moreover from k1 k2 have "keeps h h2" by (rule keeps_trans)
    ultimately show ?thesis using res TEntries by simp
  qed (use P in simp_all)
qed

lemma JsonProperty_deep: "libraryDeep lib \<Longrightarrow> deep (JsonProperty_type lib) (JsonProperty_DeepCopyInto lib)"
  unfolding JsonProperty_type_def JsonProperty_DeepCopyInto_def
  by (intro deep_struct list.rel_intros deep_assign deep_makeCopy deep_newCopy deep_makeEach
        deep_makeMap)
     (simp_all add: libraryDeep_def)

lemma Identity_OAuth2Config_deep: "libraryDeep lib \<Longrightarrow> deep (Identity_OAuth2Config_type lib) (Identity_OAuth2Config_DeepCopyInto lib)"
  unfolding Identity_OAuth2Config_type_def Identity_OAuth2Config_DeepCopyInto_def
  by (intro deep_struct list.rel_intros deep_assign deep_makeCopy deep_newCopy deep_makeEach
        deep_makeMap)

lemma Identity_APIKey_deep: "libraryDeep lib \<Longrightarrow> deep (Identity_APIKey_type lib) (Identity_APIKey_DeepCopyInto lib)"
  unfolding Identity_APIKey_type_def Identity_APIKey_DeepCopyInto_def
  by (intro deep_struct list.rel_intros deep_assign deep_makeCopy deep_newCopy deep_makeEach
        deep_makeMap)
     (simp_all add: libraryDeep_def)

lemma Identity_MTLS_deep: "libraryDeep lib \<Longrightarrow> deep (Identity_MTLS_type lib) (Identity_MTLS_DeepCopyInto lib)"
  unfolding Identity_MTLS_type_def Identity_MTLS_DeepCopyInto_def
  by (intro deep_struct list.rel_intros deep_assign deep_makeCopy deep_newCopy deep_makeEach
        deep_makeMap)
     (simp_all add: libraryDeep_def)

lemma Identity_KubernetesAuth_deep: "libraryDeep lib \<Longrightarrow> deep (Identity_KubernetesAuth_type lib) (Identity_KubernetesAuth_DeepCopyInto lib)"
  unfolding Identity_KubernetesAuth_type_def Identity_KubernetesAuth_DeepCopyInto_def
  by (intro deep_struct list.rel_intros deep_assign deep_makeCopy deep_newCopy deep_makeEach
        deep_makeMap)

lemma Identity_deep: "libraryDeep lib \<Longrightarrow> deep (Identity_type lib) (Identity_DeepCopyInto lib)"
  unfolding Identity_type_def Identity_DeepCopyInto_def
  by (intro deep_struct list.rel_intros deep_assign deep_makeCopy deep_newCopy deep_makeEach
        deep_makeMap Identity_APIKey_deep Identity_KubernetesAuth_deep Identity_MTLS_deep Identity_OAuth2Config_deep JsonProperty_deep)
     (simp_all add: libraryDeep_def)

lemma Metadata_UMA_deep: "libraryDeep lib \<Longrightarrow> deep (Metadata_UMA_type lib) (Metadata_UMA_DeepCopyInto lib)"
  unfolding Metadata_UMA_type_def Metadata_UMA_DeepCopyInto_def
  by (intro deep_struct list.rel_intros deep_assign deep_makeCopy deep_newCopy deep_makeEach
        deep_makeMap)

lemma OAuth2ClientAuthentication_deep: "libraryDeep lib \<Longrightarrow> deep (OAuth2ClientAuthentication_type lib) (OAuth2ClientAuthentication_DeepCopyInto lib)"
  unfolding OAuth2ClientAuthentication_type_def OAuth2ClientAuthentication_DeepCopyInto_def
  by (intro deep_struct list.rel_intros deep_assign deep_makeCopy deep_newCopy deep_makeEach
        deep_makeMap)

lemma Metadata_GenericHTTP_deep: "libraryDeep lib \<Longrightarrow> deep (Metadata_GenericHTTP_type lib) (Metadata_GenericHTTP_DeepCopyInto lib)"
  unfolding Metadata_GenericHTTP_type_def Metadata_GenericHTTP_DeepCopyInto_def
  by (intro deep_struct list.rel_intros deep_assign deep_makeCopy deep_newCopy deep_makeEach
        deep_makeMap JsonProperty_deep OAuth2ClientAuthentication_deep)
     (simp_all add: libraryDeep_def)

lemma Metadata_deep: "libraryDeep lib \<Longrightarrow> deep (Metadata_type lib) (Metadata_DeepCopyInto lib)"
  unfolding Metadata_type_def Metadata_DeepCopyInto_def
  by (intro deep_struct list.rel_intros deep_assign deep_makeCopy deep_newCopy deep_makeEach
        deep_makeMap Metadata_GenericHTTP_deep Metadata_UMA_deep)
     (simp_all add: libraryDeep_def)

lemma ExternalRegistry_deep: "libraryDeep lib \<Longrightarrow> deep (ExternalRegistry_type lib) (ExternalRegistry_DeepCopyInto lib)"
  unfolding ExternalRegistry_type_def ExternalRegistry_DeepCopyInto_def
  by (intro deep_struct list.rel_intros deep_assign deep_makeCopy deep_newCopy deep_makeEach
        deep_makeMap)

lemma Authorization_OPA_deep: "libraryDeep lib \<Longrightarrow> deep (Authorization_OPA_type lib) (Authorization_OPA_DeepCopyInto lib)"
  unfolding Authorization_OPA_type_def Authorization_OPA_DeepCopyInto_def
  by (intro deep_struct list.rel_intros deep_assign deep_makeCopy deep_newCopy deep_makeEach
        deep_makeMap ExternalRegistry_deep)
     (simp_all add: libraryDeep_def)

lemma Authorization_JSONPatternMatching_deep: "libraryDeep lib \<Longrightarrow> deep (Authorization_JSONPatternMatching_type lib) (Authorization_JSONPatternMatching_DeepCopyInto lib)"
  unfolding Authorization_JSONPatternMatching_type_def Authorization_JSONPatternMatching_DeepCopyInto_def
  by (intro deep_struct list.rel_intros deep_assign deep_makeCopy deep_newCopy deep_makeEach
        deep_makeMap)

lemma Authorization_KubernetesAuthz_deep: "libraryDeep lib \<Longrightarrow> deep (Authorization_KubernetesAuthz_type lib) (Authorization_KubernetesAuthz_DeepCopyInto lib)"
  unfolding Authorization_KubernetesAuthz_type_def Authorization_KubernetesAuthz_DeepCopyInto_def
  by (intro deep_struct list.rel_intros deep_assign deep_makeCopy deep_newCopy deep_makeEach
        deep_makeMap)

lemma Authorization_Authzed_deep: "libraryDeep lib \<Longrightarrow> deep (Authorization_Authzed_type lib) (Authorization_Authzed_DeepCopyInto lib)"
  unfolding Authorization_Authzed_type_def Authorization_Authzed_DeepCopyInto_def
  by (intro deep_struct list.rel_intros deep_assign deep_makeCopy deep_newCopy deep_makeEach
        deep_makeMap)

lemma Authorization_deep: "libraryDeep lib \<Longrightarrow> deep (Authorization_type lib) (Authorization_DeepCopyInto lib)"
  unfolding Authorization_type_def Authorization_DeepCopyInto_def
  by (intro deep_struct list.rel_intros deep_assign deep_makeCopy deep_newCopy deep_makeEach
        deep_makeMap Authorization_Authzed_deep Authorization_JSONPatternMatching_deep Authorization_KubernetesAuthz_deep Authorization_OPA_deep)
     (simp_all add: libraryDeep_def)

lemma Response_Wristband_deep: "libraryDeep lib \<Longrightarrow> deep (Response_Wristband_type lib) (Response_Wristband_DeepCopyInto lib)"
  unfolding Response_Wristband_type_def Response_Wristband_DeepCopyInto_def
  by (intro deep_struct list.rel_intros deep_assign deep_makeCopy deep_newCopy deep_makeEach
        deep_makeMap JsonProperty_deep)
     (simp_all add: libraryDeep_def)

lemma Response_DynamicJSON_deep: "libraryDeep lib \<Longrightarrow> deep (Response_DynamicJSON_type lib) (Response_DynamicJSON_DeepCopyInto lib)"
  unfolding Response_DynamicJSON_type_def Response_DynamicJSON_DeepCopyInto_def
  by (intro deep_struct list.rel_intros deep_assign deep_makeCopy deep_newCopy deep_makeEach
        deep_makeMap JsonProperty_deep)
     (simp_all add: libraryDeep_def)

lemma Response_deep: "libraryDeep lib \<Longrightarrow> deep (Response_type lib) (Response_DeepCopyInto lib)"
  unfolding Response_type_def Response_DeepCopyInto_def
  by (intro deep_struct list.rel_intros deep_assign deep_makeCopy deep_newCopy deep_makeEach
        deep_makeMap Response_DynamicJSON_deep Response_Wristband_deep)
     (simp_all add: libraryDeep_def)

lemma Callback_deep: "libraryDeep lib \<Longrightarrow> deep (Callback_type lib) (Callback_DeepCopyInto lib)"
  unfolding Callback_type_def Callback_DeepCopyInto_def
  by (intro deep_struct list.rel_intros deep_assign deep_makeCopy deep_newCopy deep_makeEach
        deep_makeMap Metadata_GenericHTTP_deep)
     (simp_all add: libraryDeep_def)

lemma DenyWithSpec_deep: "libraryDeep lib \<Longrightarrow> deep (DenyWithSpec_type lib) (DenyWithSpec_DeepCopyInto lib)"
  unfolding DenyWithSpec_type_def DenyWithSpec_DeepCopyInto_def
  by (intro deep_struct list.rel_intros deep_assign deep_makeCopy deep_newCopy deep_makeEach
        deep_makeMap JsonProperty_deep)
     (simp_all add: libraryDeep_def)

lemma DenyWith_deep: "libraryDeep lib \<Longrightarrow> deep (DenyWith_type lib) (DenyWith_DeepCopyInto lib)"
  unfolding DenyWith_type_def DenyWith_DeepCopyInto_def
  by (intro deep_struct list.rel_intros deep_assign deep_makeCopy deep_newCopy deep_makeEach
        deep_makeMap DenyWithSpec_deep)
     (simp_all add: libraryDeep_def)

lemma AuthConfigSpec_deep: "libraryDeep lib \<Longrightarrow> deep (AuthConfigSpec_type lib) (AuthConfigSpec_DeepCopyInto lib)"
  unfolding AuthConfigSpec_type_def AuthConfigSpec_DeepCopyInto_def
  by (intro deep_struct list.rel_intros deep_assign deep_makeCopy deep_newCopy deep_makeEach
        deep_makeMap Authorization_deep Callback_deep DenyWith_deep Identity_deep Metadata_deep Response_deep)
     (simp_all add: libraryDeep_def)

lemma Condition_deep: "libraryDeep lib \<Longrightarrow> deep (Condition_type lib) (Condition_DeepCopyInto lib)"
  unfolding Condition_type_def Condition_DeepCopyInto_def
  by (intro deep_struct list.rel_intros deep_assign deep_makeCopy deep_newCopy deep_makeEach
        deep_makeMap)
     (simp_all add: libraryDeep_def)

lemma Summary_deep: "libraryDeep lib \<Longrightarrow> deep (Summary_type lib) (Summary_DeepCopyInto lib)"
  unfolding Summary_type_def Summary_DeepCopyInto_def
  by (intro deep_struct list.rel_intros deep_assign deep_makeCopy deep_newCopy deep_makeEach
        deep_makeMap)

lemma AuthConfigStatus_deep: "libraryDeep lib \<Longrightarrow> deep (AuthConfigStatus_type lib) (AuthConfigStatus_DeepCopyInto lib)"
  unfolding AuthConfigStatus_type_def AuthConfigStatus_DeepCopyInto_def
  by (intro deep_struct list.rel_intros deep_assign deep_makeCopy deep_newCopy deep_makeEach
        deep_makeMap Condition_deep Summary_deep)
     (simp_all add: libraryDeep_def)

lemma AuthConfig_deep: "libraryDeep lib \<Longrightarrow> deep (AuthConfig_type lib) (AuthConfig_DeepCopyInto lib)"
  unfolding AuthConfig_type_def AuthConfig_DeepCopyInto_def
  by (intro deep_struct list.rel_intros deep_assign deep_makeCopy deep_newCopy deep_makeEach
        deep_makeMap AuthConfigSpec_deep AuthConfigStatus_deep)
     (simp_all add: libraryDeep_def)

lemma deep_isolated:
  assumes "deep P c" and "wellFormed h" and "P t" and "denotesIn {..<next_free h} h v t"
  shows "isolated h v t (c h v)"
proof -
  obtain h' v' where r: "c h v = (h', v')" by (cases "c h v")
  from deepD [OF assms r]
  have k: "keeps h h'" and copy: "denotesIn {next_free h..<next_free h'} h' v' t" .
  have orig: "denotesIn {..<next_free h} h'' v t"
    if "\<forall>a. a < next_free h \<longrightarrow> cells h'' a = cells h' a" for h''
    using assms(4)
  proof (rule frame)
    fix a assume "a \<in> {..<next_free h}"
    with that k show "cells h'' a = cells h a" by (simp add: keeps_def)
  qed simp
  have same: "denotesIn {next_free h..<next_free h'} h'' v' t"
    if "\<forall>a. next_free h \<le> a \<and> a < next_free h' \<longrightarrow> cells h'' a = cells h' a" for h''
    using copy
  proof (rule frame)
    fix a assume "a \<in> {next_free h..<next_free h'}"
    with that show "cells h'' a = cells h' a" by simp
  qed simp
  from copy orig same show ?thesis by (simp add: isolated_def r)
qed

text \<open>
  C9. Given deep library copies and a well-formed store, \<open>DeepCopy\<close> of a (nil or
  non-nil) \<open>AuthConfig\<close>, and likewise of an \<open>AuthConfigSpec\<close>, returns a value that denotes
  the same tree as the original (structurally equal) through cells that the copy allocated
  (no shared slice, map or pointer target); mutating any cell of the copy leaves what the
  original denotes unchanged, and conversely.
\<close>

theorem DeepCopy_isolated:
  assumes "libraryDeep lib" and "wellFormed h"
  shows "(pointerTo (AuthConfig_type lib) t \<and> denotesIn {..<next_free h} h v t
            \<longrightarrow> isolated h v t (AuthConfig_DeepCopy lib h v)) \<and>
         (pointerTo (AuthConfigSpec_type lib) t \<and> denotesIn {..<next_free h} h v t
            \<longrightarrow> isolated h v t (AuthConfigSpec_DeepCopy lib h v))"
proof -
  have "deep (pointerTo (AuthConfig_type lib)) (AuthConfig_DeepCopy lib)"
    unfolding AuthConfig_DeepCopy_def using assms(1) by (intro deep_newCopy AuthConfig_deep)
  moreover have "deep (pointerTo (AuthConfigSpec_type lib)) (AuthConfigSpec_DeepCopy lib)"
    unfolding AuthConfigSpec_DeepCopy_def using assms(1) by (intro deep_newCopy AuthConfigSpec_deep)
  ultimately show ?thesis using assms(2) by (auto intro: deep_isolated)
qed

theorem DeepCopy_isolated_witness:
  "isolated storedObject (Ref 3) storedTree (AuthConfig_DeepCopy scalarLibrary storedObject (Ref 3)) \<and>
   snd (AuthConfig_DeepCopy scalarLibrary storedObject (Ref 3)) = Ref 7"
proof -
  have lib: "libraryDeep scalarLibrary"
    by (simp add: libraryDeep_def scalarLibrary_def deep_assign)
  have store: "wellFormed storedObject"
    by (simp add: wellFormed_def storedObject_def)
  have type: "pointerTo (AuthConfig_type scalarLibrary) storedTree"
    by (simp add: storedTree_def AuthConfig_type_def AuthConfigSpec_type_def
          AuthConfigStatus_type_def Summary_type_def Identity_type_def scalarLibrary_def)
  have denotes: "denotesIn {..<next_free storedObject} storedObject (Ref 3) storedTree"
    by (simp add: storedTree_def storedObject_def)
  have copy: "snd (AuthConfig_DeepCopy scalarLibrary storedObject (Ref 3)) = Ref 7"
    by (simp add: AuthConfig_DeepCopy_def AuthConfig_DeepCopyInto_def
          AuthConfigSpec_DeepCopyInto_def AuthConfigStatus_DeepCopyInto_def
          Summary_DeepCopyInto_def Identity_DeepCopyInto_def scalarLibrary_def storedObject_def
          newCopy_def makeEach_def makeCopy_def makeMap_def struct_def assign_def alloc_def)
  from DeepCopy_isolated [OF lib store, of storedTree "Ref 3"] type denotes copy
  show ?thesis by blast
qed

end
